theory Spec2Isabelle
  imports Complex_Main "HOL-Library.AList" "HOL-Library.Signed_Division"
begin

section \<open>Errors, panics and outcomes\<close>

text \<open>
  A Go \<^verbatim>\<open>error\<close> is a value: \<^verbatim>\<open>errors.New(msg)\<close>, an error handed up by the
  SQL driver, or \<^verbatim>\<open>errors.Wrap(err, msg)\<close>. A nil error is \<open>None\<close>.
\<close>

datatype error = Driver string | New string | Wrap error string

text \<open>
  The two run-time panics the modelled code can raise: an index beyond the length of a
  slice, and an assignment into a nil map. A function that may panic returns an
  \<open>outcome\<close>.
\<close>

datatype panic = IndexOutOfRange | NilMapAssignment

datatype 'a outcome = Return 'a | Panic panic

section \<open>Data model (package models)\<close>

text \<open>
  Modelled from the spec: the struct declarations of package \<^verbatim>\<open>models\<close> (GPS,
  SensorData, LocationPrediction, LocationAnalysis, ReverseRollingData) are not among the
  source files; the fields are those the code reads and writes, with the types the
  spec's data model gives them. A \<^verbatim>\<open>float64\<close> is only copied and compared with
  constants here, so it is a \<open>real\<close>. A Go map is an association list read with
  \<open>map_of\<close>: the list order is the order in which a \<^verbatim>\<open>range\<close> loop happens to
  visit the entries, which Go leaves unspecified. The sensor values
  (\<^verbatim>\<open>interface{}\<close>) are of an arbitrary type \<open>'v\<close>.
\<close>

record GPS =
  Latitude :: real
  Longitude :: real
  Altitude :: real

definition zero_GPS :: GPS where
  "zero_GPS = \<lparr>Latitude = 0, Longitude = 0, Altitude = 0\<rparr>"

record 'v SensorData =
  Timestamp :: int
  Family :: string
  Device :: string
  Location :: string
  GPS :: GPS
  Sensors :: "(string \<times> (string \<times> 'v) list) list"

text \<open>
  Modelled from the spec: \<^verbatim>\<open>models.LocationPrediction\<close>. The probability is a
  \<^verbatim>\<open>float64\<close> on which \<^verbatim>\<open>AddPrediction\<close> computes; its type is left open
  (\<open>'p\<close>) and the floating-point expression is a parameter of \<open>AddPrediction\<close>.
\<close>

record 'p LocationPrediction =
  PredLocation :: string
  Probability :: 'p
  ActiveMins :: 'p

text \<open>
  Modelled from the spec: \<^verbatim>\<open>models.ReverseRollingData\<close>. Times are integers in
  nanoseconds (\<^verbatim>\<open>time.Time\<close> as Unix nanoseconds, \<^verbatim>\<open>time.Duration\<close>).
\<close>

record 'v ReverseRollingData =
  RFamily :: string
  RTimestamp :: int
  TimeBlock :: int
  HasData :: bool
  Datas :: "'v SensorData list"
  DeviceLocation :: "(string \<times> string) list"
  DeviceGPS :: "(string \<times> GPS) list"
  MinimumPassive :: int

section \<open>The database handle (database/db.go)\<close>

text \<open>
  The values of the keystore are JSON texts; the model keeps the value that was
  marshalled, tagged with its Go type, and \<^verbatim>\<open>json.Unmarshal\<close> into a variable of
  another type fails.
\<close>

datatype 'v kvalue = VString string | VRolling "'v ReverseRollingData"

text \<open>A row of table \<^verbatim>\<open>gps\<close>: timestamp, mac, loc, lat, lon, alt.\<close>

type_synonym gps_row = "int \<times> string \<times> string \<times> real \<times> real \<times> real"

text \<open>A row of table \<^verbatim>\<open>sensors\<close> without its key: deviceid, locationid, bluetooth.\<close>

type_synonym sensor_row = "string \<times> string \<times> string"

text \<open>What \<^verbatim>\<open>Close\<close> does to resources outside the tables, in order.\<close>

datatype effect = SqlClose | LockDelete string

text \<open>
  \<^verbatim>\<open>Database\<close> is the handle \<^verbatim>\<open>d\<close> together with the MySQL database behind
  \<^verbatim>\<open>d.db\<close> and the package-level \<^verbatim>\<open>databaseLock.Locked\<close>:
  \<^item> \<open>faults\<close> lists the outcomes of the driver calls to come (\<open>None\<close>: the call
    succeeds, \<open>Some m\<close>: the driver returns an error with message \<open>m\<close>); when the
    list is used up every call succeeds;
  \<^item> \<open>columns\<close> are the columns of table \<^verbatim>\<open>sensors\<close>; \<open>sensors\<close> and
    \<open>location_predictions\<close> are keyed by their primary key \<^verbatim>\<open>timestamp\<close>;
  \<^item> \<open>open_txs\<close> holds, for every transaction begun and neither committed nor rolled
    back, the rows it has written so far.
\<close>

record ('v, 'p) Database =
  name :: string
  isClosed :: bool
  sql_closed :: bool
  faults :: "string option list"
  columns :: "string list"
  keystore :: "(string \<times> 'v kvalue) list"
  sensors :: "(int \<times> sensor_row) list"
  location_predictions :: "(int \<times> 'p LocationPrediction list) list"
  gps :: "gps_row list"
  open_txs :: "gps_row list list"
  Locked :: "(string \<times> bool) list"
  effects :: "effect list"

text \<open>
  One call into \<^verbatim>\<open>database/sql\<close> (Prepare, Query, Exec, Begin, Commit): it fails on a
  closed \<^verbatim>\<open>sql.DB\<close>, and otherwise as the next entry of \<open>faults\<close> says.
\<close>

definition driver_call :: "('v, 'p) Database \<Rightarrow> error option \<times> ('v, 'p) Database" where
  "driver_call d =
     (if sql_closed d then (Some (Driver ''sql: database is closed''), d)
      else case faults d of
             [] \<Rightarrow> (None, d)
           | f # fs \<Rightarrow> (map_option Driver f, d\<lparr>faults := fs\<rparr>))"

text \<open>\<^verbatim>\<open>d.db.Close()\<close>: nil on a closed \<^verbatim>\<open>sql.DB\<close>; otherwise it closes and may report an error.\<close>

definition sql_Close :: "('v, 'p) Database \<Rightarrow> error option \<times> ('v, 'p) Database" where
  "sql_Close d =
     (if sql_closed d then (None, d)
      else case faults d of
             [] \<Rightarrow> (None, d\<lparr>sql_closed := True, effects := effects d @ [SqlClose]\<rparr>)
           | f # fs \<Rightarrow> (map_option Driver f,
                       d\<lparr>faults := fs, sql_closed := True, effects := effects d @ [SqlClose]\<rparr>))"

text \<open>\<^verbatim>\<open>func (d *Database) Close() (err error)\<close>\<close>

definition Close :: "('v, 'p) Database \<Rightarrow> error option \<times> ('v, 'p) Database" where
  "Close d =
     (if isClosed d then (None, d)
      else case sql_Close d of (err2, d1) \<Rightarrow>
        (err2, d1\<lparr>Locked := AList.delete (name d1) (Locked d1),
                  effects := effects d1 @ [LockDelete (name d1)],
                  isClosed := True\<rparr>))"

text \<open>
  \<^verbatim>\<open>func (d *Database) AddPrediction(timestamp int64, aidata []models.LocationPrediction)\<close>.
  \<open>trunc2\<close> stands for the \<^verbatim>\<open>float64\<close> expression
  \<^verbatim>\<open>float64(int64(float64(p)*100)) / 100\<close>. \<^verbatim>\<open>json.Marshal\<close> of the list is taken to
  succeed; the stored text is represented by the list itself. The statement is
  \<^verbatim>\<open>insert ... on duplicate key update prediction=?\<close>.
\<close>

definition AddPrediction ::
  "('p \<Rightarrow> 'p) \<Rightarrow> int \<Rightarrow> 'p LocationPrediction list \<Rightarrow> ('v, 'p) Database
     \<Rightarrow> error option \<times> ('v, 'p) Database" where
  "AddPrediction trunc2 timestamp aidata d =
     (if length aidata = 0 then (Some (New ''no predictions to add''), d)
      else
        let b = map (\<lambda>a. a\<lparr>Probability := trunc2 (Probability a)\<rparr>) aidata in
        case driver_call d of
          (Some e, d1) \<Rightarrow> (Some (Wrap e ''stmt AddPrediction''), d1)
        | (None, d1) \<Rightarrow>
            (case driver_call d1 of
               (Some e, d2) \<Rightarrow> (Some (Wrap e ''exec AddPrediction''), d2)
             | (None, d2) \<Rightarrow>
                 (None, d2\<lparr>location_predictions :=
                              AList.update timestamp b (location_predictions d2)\<rparr>)))"

text \<open>\<^verbatim>\<open>func (d *Database) Columns() (columns []string, err error)\<close>: the query, then \<^verbatim>\<open>rows.Columns()\<close>.\<close>

definition Columns :: "('v, 'p) Database \<Rightarrow> (error + string list) \<times> ('v, 'p) Database" where
  "Columns d =
     (case driver_call d of
        (Some e, d1) \<Rightarrow> (Inl (Wrap e ''Columns''), d1)
      | (None, d1) \<Rightarrow>
          (case driver_call d1 of
             (Some e, d2) \<Rightarrow> (Inl (Wrap e ''Columns''), d2)
           | (None, d2) \<Rightarrow> (Inr (columns d2), d2)))"

text \<open>
  \<^verbatim>\<open>func (d *Database) Get(key string, v interface{}) (err error)\<close>: Prepare, then
  \<^verbatim>\<open>QueryRow(key).Scan\<close>, which fails when the key has no row, then \<^verbatim>\<open>json.Unmarshal\<close>
  into the caller's variable (\<open>unmarshal\<close>, by the type of that variable).
\<close>

definition Get ::
  "string \<Rightarrow> ('v kvalue \<Rightarrow> error + 'a) \<Rightarrow> ('v, 'p) Database \<Rightarrow> (error + 'a) \<times> ('v, 'p) Database" where
  "Get key unmarshal d =
     (case driver_call d of
        (Some e, d1) \<Rightarrow> (Inl (Wrap e ''problem preparing SQL''), d1)
      | (None, d1) \<Rightarrow>
          (case driver_call d1 of
             (Some e, d2) \<Rightarrow> (Inl (Wrap e ''problem getting key''), d2)
           | (None, d2) \<Rightarrow>
               (case map_of (keystore d2) key of
                  None \<Rightarrow>
                    (Inl (Wrap (Driver ''sql: no rows in result set'') ''problem getting key''), d2)
                | Some v \<Rightarrow> (unmarshal v, d2))))"

definition unmarshal_string :: "'v kvalue \<Rightarrow> error + string" where
  "unmarshal_string v =
     (case v of
        VString s \<Rightarrow> Inr s
      | VRolling r \<Rightarrow> Inl (New ''json: cannot unmarshal object into Go value of type string''))"

definition unmarshal_rolling :: "'v kvalue \<Rightarrow> error + 'v ReverseRollingData" where
  "unmarshal_rolling v =
     (case v of
        VRolling r \<Rightarrow> Inr r
      | VString s \<Rightarrow>
          Inl (New ''json: cannot unmarshal string into Go value of type models.ReverseRollingData''))"

text \<open>
  \<^verbatim>\<open>func (d *Database) Set(key string, value interface{}) (err error)\<close>:
  \<^verbatim>\<open>insert into keystore ... on duplicate key update value=?\<close>. \<^verbatim>\<open>json.Marshal\<close> of
  the values stored here (a string, a \<^verbatim>\<open>ReverseRollingData\<close>) is taken to succeed.
\<close>

definition Set_key :: "string \<Rightarrow> 'v kvalue \<Rightarrow> ('v, 'p) Database \<Rightarrow> error option \<times> ('v, 'p) Database" where
  "Set_key key val d =
     (case driver_call d of
        (Some e, d1) \<Rightarrow> (Some (Wrap e ''Set''), d1)
      | (None, d1) \<Rightarrow>
          (case driver_call d1 of
             (Some e, d2) \<Rightarrow> (Some (Wrap e ''Set''), d2)
           | (None, d2) \<Rightarrow> (None, d2\<lparr>keystore := AList.update key val (keystore d2)\<rparr>)))"

text \<open>
  The string sizer is the library \<^verbatim>\<open>github.com/schollz/stringsizer\<close>, outside this
  repository: \<^verbatim>\<open>stringsizer.New\<close>, the field \<^verbatim>\<open>Current\<close>, \<^verbatim>\<open>ShrinkMapToString\<close>
  (which may extend the sizer it is called on) and \<^verbatim>\<open>Save\<close> are parameters.
\<close>

record ('ss, 'v) stringsizer =
  ss_New :: "string \<Rightarrow> error + 'ss"
  ss_Current :: "'ss \<Rightarrow> string"
  ShrinkMapToString :: "'ss \<Rightarrow> (string \<times> 'v) list \<Rightarrow> string \<times> 'ss"
  ss_Save :: "'ss \<Rightarrow> string"

text \<open>\<^verbatim>\<open>m[key]\<close> on a map of maps: the nil map, which has no entries, when the key is absent.\<close>

definition index_map :: "(string \<times> (string \<times> 'v) list) list \<Rightarrow> string \<Rightarrow> (string \<times> 'v) list" where
  "index_map m key = (case map_of m key of None \<Rightarrow> [] | Some inner \<Rightarrow> inner)"

text \<open>
  \<^verbatim>\<open>stmt.Exec\<close> of \<^verbatim>\<open>insert into sensors(timestamp,deviceid,locationid,bluetooth) values (?,?,?,?)\<close>:
  a plain insert, so a row with the same primary key \<^verbatim>\<open>timestamp\<close> makes it fail.
\<close>

definition insert_sensor :: "int \<Rightarrow> sensor_row \<Rightarrow> ('v, 'p) Database \<Rightarrow> error option \<times> ('v, 'p) Database" where
  "insert_sensor ts row d =
     (case driver_call d of
        (Some e, d1) \<Rightarrow> (Some e, d1)
      | (None, d1) \<Rightarrow>
          (case map_of (sensors d1) ts of
             Some r \<Rightarrow> (Some (Driver ''Error 1062: Duplicate entry for key PRIMARY''), d1)
           | None \<Rightarrow> (None, d1\<lparr>sensors := sensors d1 @ [(ts, row)]\<rparr>)))"

definition sqlStatement :: string where
  "sqlStatement = ''insert into sensors(timestamp,deviceid,locationid,bluetooth) values (?,?,?,?)''"

text \<open>
  \<^verbatim>\<open>func (d *Database) AddSensor(s models.SensorData) (err error)\<close>. The column list is
  read into \<^verbatim>\<open>oldColumns\<close>, which nothing reads afterwards; no statement alters the
  table.
\<close>

definition AddSensor ::
  "('ss, 'v) stringsizer \<Rightarrow> 'v SensorData \<Rightarrow> ('v, 'p) Database \<Rightarrow> error option \<times> ('v, 'p) Database" where
  "AddSensor ss s d =
     (case Columns d of
        (Inl e, d1) \<Rightarrow> (Some e, d1)
      | (Inr columnList, d1) \<Rightarrow>
          (case Get ''sensorDataStringSizer'' unmarshal_string d1 of
             (Inl e, d2) \<Rightarrow> (Some e, d2)
           | (Inr sensorDataStringSizerString, d2) \<Rightarrow>
               (case ss_New ss sensorDataStringSizerString of
                  Inl e \<Rightarrow> (Some e, d2)
                | Inr sensorDataSS \<Rightarrow>
                    (case ShrinkMapToString ss sensorDataSS (index_map (Sensors s) ''bluetooth'') of
                       (cell, sensorDataSS') \<Rightarrow>
                         (case driver_call d2 of
                            (Some e, d3) \<Rightarrow> (Some (Wrap e (''AddSensor, prepare '' @ sqlStatement)), d3)
                          | (None, d3) \<Rightarrow>
                              (case insert_sensor (Timestamp s) (Device s, Location s, cell) d3 of
                                 (Some e, d4) \<Rightarrow> (Some (Wrap e ''AddSensor, execute''), d4)
                               | (None, d4) \<Rightarrow>
                                   (if ss_Current ss sensorDataSS \<noteq> ss_Current ss sensorDataSS'
                                    then Set_key ''sensorDataStringSizer''
                                           (VString (ss_Save ss sensorDataSS')) d4
                                    else (None, d4))))))))"

text \<open>
  Transactions of \<^verbatim>\<open>database/sql\<close>. \<^verbatim>\<open>Begin\<close> opens one; \<^verbatim>\<open>Exec\<close> on its statement
  adds a row to it; \<^verbatim>\<open>Commit\<close> ends it and, when it succeeds, appends its rows to table
  \<^verbatim>\<open>gps\<close> (each row gets a fresh \<^verbatim>\<open>id\<close>, so none replaces another). The current
  transaction is the head of \<open>open_txs\<close>.
\<close>

definition tx_Begin :: "('v, 'p) Database \<Rightarrow> error option \<times> ('v, 'p) Database" where
  "tx_Begin d =
     (case driver_call d of
        (Some e, d1) \<Rightarrow> (Some e, d1)
      | (None, d1) \<Rightarrow> (None, d1\<lparr>open_txs := [] # open_txs d1\<rparr>))"

definition tx_Exec :: "gps_row \<Rightarrow> ('v, 'p) Database \<Rightarrow> error option \<times> ('v, 'p) Database" where
  "tx_Exec row d =
     (case driver_call d of
        (Some e, d1) \<Rightarrow> (Some e, d1)
      | (None, d1) \<Rightarrow>
          (None, d1\<lparr>open_txs := (case open_txs d1 of [] \<Rightarrow> [] | t # ts \<Rightarrow> (t @ [row]) # ts)\<rparr>))"

definition tx_Commit :: "('v, 'p) Database \<Rightarrow> error option \<times> ('v, 'p) Database" where
  "tx_Commit d =
     (case driver_call d of
        (Some e, d1) \<Rightarrow> (Some e, d1\<lparr>open_txs := tl (open_txs d1)\<rparr>)
      | (None, d1) \<Rightarrow>
          (None, d1\<lparr>gps := gps d1 @ (case open_txs d1 of [] \<Rightarrow> [] | t # ts \<Rightarrow> t),
                    open_txs := tl (open_txs d1)\<rparr>))"

definition gps_row_of :: "'v SensorData \<Rightarrow> string \<Rightarrow> string \<Rightarrow> gps_row" where
  "gps_row_of p sensorType mac =
     (Timestamp p, sensorType @ ''-'' @ mac, Location p,
      Latitude (GPS p), Longitude (GPS p), Altitude (GPS p))"

text \<open>The inner loop of \<^verbatim>\<open>SetGPS\<close>: \<^verbatim>\<open>for mac := range p.Sensors[sensorType]\<close>.\<close>

fun SetGPS_macs ::
  "'v SensorData \<Rightarrow> string \<Rightarrow> (string \<times> 'v) list \<Rightarrow> ('v, 'p) Database \<Rightarrow> error option \<times> ('v, 'p) Database" where
  "SetGPS_macs p sensorType [] d = (None, d)"
| "SetGPS_macs p sensorType ((mac, v) # macs) d =
     (case tx_Exec (gps_row_of p sensorType mac) d of
        (Some e, d1) \<Rightarrow> (Some (Wrap e ''SetGPS''), d1)
      | (None, d1) \<Rightarrow> SetGPS_macs p sensorType macs d1)"

text \<open>The outer loop: \<^verbatim>\<open>for sensorType := range p.Sensors\<close>.\<close>

fun SetGPS_sensors ::
  "'v SensorData \<Rightarrow> (string \<times> (string \<times> 'v) list) list \<Rightarrow> ('v, 'p) Database
     \<Rightarrow> error option \<times> ('v, 'p) Database" where
  "SetGPS_sensors p [] d = (None, d)"
| "SetGPS_sensors p ((sensorType, macs) # rest) d =
     (case SetGPS_macs p sensorType macs d of
        (Some e, d1) \<Rightarrow> (Some e, d1)
      | (None, d1) \<Rightarrow> SetGPS_sensors p rest d1)"

text \<open>
  \<^verbatim>\<open>func (d *Database) SetGPS(p models.SensorData) (err error)\<close>. Every error path is a
  plain \<^verbatim>\<open>return errors.Wrap(err, "SetGPS")\<close>; the function never calls
  \<^verbatim>\<open>tx.Rollback()\<close>. The statement text is \<^verbatim>\<open>insert or replace into gps(...)\<close>;
  whether the server accepts it is part of the outcome of Prepare.
\<close>

definition SetGPS :: "'v SensorData \<Rightarrow> ('v, 'p) Database \<Rightarrow> error option \<times> ('v, 'p) Database" where
  "SetGPS p d =
     (case tx_Begin d of
        (Some e, d1) \<Rightarrow> (Some (Wrap e ''SetGPS''), d1)
      | (None, d1) \<Rightarrow>
          (case driver_call d1 of
             (Some e, d2) \<Rightarrow> (Some (Wrap e ''SetGPS''), d2)
           | (None, d2) \<Rightarrow>
               (case SetGPS_sensors p (Sensors p) d2 of
                  (Some e, d3) \<Rightarrow> (Some e, d3)
                | (None, d3) \<Rightarrow>
                    (case tx_Commit d3 of
                       (Some e, d4) \<Rightarrow> (Some (Wrap e ''SetGPS''), d4)
                     | (None, d4) \<Rightarrow> (None, d4)))))"

section \<open>Saving (package api)\<close>

text \<open>
  Modelled from the spec: the server calls \<^verbatim>\<open>api.SaveSensorData(p, db)\<close> with the
  handle as second argument; the sources hold only a one-argument variant that opens a
  handle of its own. The steps are those of that variant and of the spec's ingest
  pipeline, on the handle passed in: validate, \<^verbatim>\<open>AddSensor\<close>, and \<^verbatim>\<open>SetGPS\<close> when
  latitude and longitude are both non-zero (its error is dropped, and it runs even when
  \<^verbatim>\<open>AddSensor\<close> failed). \<^verbatim>\<open>Validate\<close> of package \<^verbatim>\<open>models\<close> is a parameter. The
  server functions below take the save function itself as a parameter.
\<close>

definition SaveSensorData ::
  "('v SensorData \<Rightarrow> error option) \<Rightarrow> ('ss, 'v) stringsizer \<Rightarrow> 'v SensorData \<Rightarrow> ('v, 'p) Database
     \<Rightarrow> error option \<times> ('v, 'p) Database" where
  "SaveSensorData Validate ss s d =
     (case Validate s of
        Some e \<Rightarrow> (Some (Wrap e ''problem validating data''), d)
      | None \<Rightarrow>
          (case AddSensor ss s d of
             (err, d1) \<Rightarrow>
               (if Longitude (GPS s) \<noteq> 0 \<and> Latitude (GPS s) \<noteq> 0
                then (err, snd (SetGPS s d1))
                else (err, d1))))"

section \<open>The server (package server)\<close>

text \<open>
  Modelled from the spec: \<^verbatim>\<open>models.LocationAnalysis\<close>, of which the server reads the
  guesses.
\<close>

record 'p LocationAnalysis =
  Guesses :: "'p LocationPrediction list"

text \<open>A goroutine started by a \<^verbatim>\<open>go\<close> statement: started, and not run by the caller.\<close>

datatype 'v goroutine = Go_sendOutData "'v SensorData" | Go_parseRollingData string

text \<open>
  The state of the server: the package-level handle \<^verbatim>\<open>db\<close> and the goroutines started
  so far, in order.
\<close>

record ('v, 'p) Server =
  db :: "('v, 'p) Database"
  goroutines :: "'v goroutine list"

text \<open>
  \<^verbatim>\<open>func processSensorData(p models.SensorData, justSave ...bool) (err error)\<close>. The
  variadic \<^verbatim>\<open>justSave\<close> is the list of the arguments given. The condition is
  \<^verbatim>\<open>len(justSave) < 0 || !justSave[0]\<close>, evaluated left to right; \<^verbatim>\<open>justSave[0]\<close> on
  an empty slice panics. \<open>save\<close> is \<^verbatim>\<open>api.SaveSensorData\<close> applied to the handle.
\<close>

definition processSensorData ::
  "('v SensorData \<Rightarrow> ('v, 'p) Database \<Rightarrow> error option \<times> ('v, 'p) Database)
     \<Rightarrow> 'v SensorData \<Rightarrow> bool list \<Rightarrow> ('v, 'p) Server \<Rightarrow> error option outcome \<times> ('v, 'p) Server" where
  "processSensorData save p justSave sv =
     (case save p (db sv) of
        (Some e, d1) \<Rightarrow> (Return (Some e), sv\<lparr>db := d1\<rparr>)
      | (None, d1) \<Rightarrow>
          (if int (length justSave) < 0
           then (Return None, sv\<lparr>db := d1, goroutines := goroutines sv @ [Go_sendOutData p]\<rparr>)
           else (case justSave of
                   [] \<Rightarrow> (Panic IndexOutOfRange, sv\<lparr>db := d1\<rparr>)
                 | j # js \<Rightarrow>
                     (if \<not> j
                      then (Return None,
                            sv\<lparr>db := d1, goroutines := goroutines sv @ [Go_sendOutData p]\<rparr>)
                      else (Return None, sv\<lparr>db := d1\<rparr>)))))"

text \<open>The document \<^verbatim>\<open>sendOutData\<close> marshals, and the calls that publish it.\<close>

record ('v, 'p) Payload =
  PSensors :: "'v SensorData"
  PGuesses :: "'p LocationPrediction list"
  PLocation :: string
  PTime :: int

datatype ('v, 'p) message =
  Websockets (msg_family: string) (msg_device: string) (msg_payload: "('v, 'p) Payload")
| MQTT (msg_family: string) (msg_device: string) (msg_payload: "('v, 'p) Payload")

text \<open>
  \<^verbatim>\<open>func sendOutData(p models.SensorData) (analysis models.LocationAnalysis, err error)\<close>.
  Parameters: \<open>lower_trim\<close> is \<^verbatim>\<open>strings.TrimSpace(strings.ToLower(_))\<close>; \<open>analysis\<close> is
  what \<^verbatim>\<open>api.AnalyzeSensorData(p, db)\<close> returned (its error is discarded by the code);
  \<open>gpsData\<close> and \<open>gpsErr\<close> are the two results of \<^verbatim>\<open>api.GetGPSData(p.Family)\<close>, the map
  reduced to the \<^verbatim>\<open>GPS\<close> field of its values, the only one read; \<open>marshal_err\<close> is the
  error of \<^verbatim>\<open>json.Marshal(payload)\<close>. The result is the pair returned and the messages
  published, in order. Only latitude and longitude of \<^verbatim>\<open>p.GPS\<close> are assigned.
\<close>

definition sendOutData ::
  "(string \<Rightarrow> string) \<Rightarrow> bool \<Rightarrow> 'p LocationAnalysis \<Rightarrow> (string \<times> GPS) list \<Rightarrow> error option
     \<Rightarrow> (('v, 'p) Payload \<Rightarrow> error option) \<Rightarrow> 'v SensorData
     \<Rightarrow> ('p LocationAnalysis \<times> error option) \<times> ('v, 'p) message list" where
  "sendOutData lower_trim UseMQTT analysis gpsData gpsErr marshal_err p =
     (case Guesses analysis of
        [] \<Rightarrow> ((analysis, Some (New ''no guesses'')), [])
      | g # gs \<Rightarrow>
          (let p1 = (case map_of gpsData (PredLocation g) of
                       Some loc \<Rightarrow>
                         (if gpsErr = None
                          then p\<lparr>GPS := (GPS p)\<lparr>Latitude := Latitude loc,
                                                Longitude := Longitude loc\<rparr>\<rparr>
                          else p\<lparr>GPS := (GPS p)\<lparr>Latitude := - 1, Longitude := - 1\<rparr>\<rparr>)
                     | None \<Rightarrow> p\<lparr>GPS := (GPS p)\<lparr>Latitude := - 1, Longitude := - 1\<rparr>\<rparr>);
               payload = \<lparr>PSensors = p1, PGuesses = Guesses analysis,
                          PLocation = PredLocation g, PTime = Timestamp p1\<rparr>
           in case marshal_err payload of
                Some e \<Rightarrow> ((analysis, Some e), [])
              | None \<Rightarrow>
                  ((analysis, None),
                   [Websockets (lower_trim (Family p1)) (Device p1) payload,
                    Websockets (lower_trim (Family p1)) ''all'' payload]
                   @ (if UseMQTT then [MQTT (lower_trim (Family p1)) (Device p1) payload] else []))))"

subsection \<open>The reverse window\<close>

text \<open>
  The body of the innermost loop of \<^verbatim>\<open>parseRollingData\<close>, for one sample (its device),
  one sensor and one \<^verbatim>\<open>mac\<close> with its \<^verbatim>\<open>rssi\<close>. \<open>clock k\<close> is the reading of
  \<^verbatim>\<open>time.Now().UTC().UnixNano()\<close> when the entry after the first \<open>k\<close> is created. An
  assignment \<^verbatim>\<open>m[k] = v\<close> where \<^verbatim>\<open>m\<close> is the nil map (the value of a missing key of
  \<^verbatim>\<open>Sensors\<close>) panics.
\<close>

definition observe ::
  "'v ReverseRollingData \<Rightarrow> string \<Rightarrow> (nat \<Rightarrow> int) \<Rightarrow> string \<Rightarrow> string \<Rightarrow> string \<Rightarrow> 'v
     \<Rightarrow> (string \<times> 'v SensorData) list \<Rightarrow> (string \<times> 'v SensorData) list outcome" where
  "observe rollingData family clock device sensor mac rssi sensorMap =
     (let trackedDeviceName = sensor @ ''-'' @ mac;
          sensorMap1 =
            (case map_of sensorMap trackedDeviceName of
               Some e \<Rightarrow> sensorMap
             | None \<Rightarrow>
                 AList.update trackedDeviceName
                   \<lparr>Timestamp = clock (length sensorMap) sdiv 1000000,
                    Family = family,
                    Device = trackedDeviceName,
                    Location = (case map_of (DeviceLocation rollingData) trackedDeviceName of
                                  Some loc \<Rightarrow> loc | None \<Rightarrow> ''''),
                    GPS = (case map_of (DeviceGPS rollingData) trackedDeviceName of
                             Some g \<Rightarrow> g | None \<Rightarrow> zero_GPS),
                    Sensors = [(sensor, [])]\<rparr>
                   sensorMap)
      in case map_of sensorMap1 trackedDeviceName of
           None \<Rightarrow> Panic NilMapAssignment
         | Some e \<Rightarrow>
             (case map_of (Sensors e) sensor of
                None \<Rightarrow> Panic NilMapAssignment
              | Some inner \<Rightarrow>
                  Return (AList.update trackedDeviceName
                            (e\<lparr>Sensors := AList.update sensor
                                  (AList.update (device @ ''-'' @ sensor) rssi inner) (Sensors e)\<rparr>)
                            sensorMap1)))"

text \<open>\<^verbatim>\<open>for mac := range data.Sensors[sensor]\<close>\<close>

fun merge_macs ::
  "'v ReverseRollingData \<Rightarrow> string \<Rightarrow> (nat \<Rightarrow> int) \<Rightarrow> string \<Rightarrow> string \<Rightarrow> (string \<times> 'v) list
     \<Rightarrow> (string \<times> 'v SensorData) list \<Rightarrow> (string \<times> 'v SensorData) list outcome" where
  "merge_macs rollingData family clock device sensor [] sensorMap = Return sensorMap"
| "merge_macs rollingData family clock device sensor ((mac, rssi) # macs) sensorMap =
     (case observe rollingData family clock device sensor mac rssi sensorMap of
        Panic pn \<Rightarrow> Panic pn
      | Return sensorMap' \<Rightarrow> merge_macs rollingData family clock device sensor macs sensorMap')"

text \<open>\<^verbatim>\<open>for sensor := range data.Sensors\<close>\<close>

fun merge_sensors ::
  "'v ReverseRollingData \<Rightarrow> string \<Rightarrow> (nat \<Rightarrow> int) \<Rightarrow> string \<Rightarrow> (string \<times> (string \<times> 'v) list) list
     \<Rightarrow> (string \<times> 'v SensorData) list \<Rightarrow> (string \<times> 'v SensorData) list outcome" where
  "merge_sensors rollingData family clock device [] sensorMap = Return sensorMap"
| "merge_sensors rollingData family clock device ((sensor, macs) # rest) sensorMap =
     (case merge_macs rollingData family clock device sensor macs sensorMap of
        Panic pn \<Rightarrow> Panic pn
      | Return sensorMap' \<Rightarrow> merge_sensors rollingData family clock device rest sensorMap')"

text \<open>\<^verbatim>\<open>for _, data := range rollingData.Datas\<close>\<close>

fun merge_datas ::
  "'v ReverseRollingData \<Rightarrow> string \<Rightarrow> (nat \<Rightarrow> int) \<Rightarrow> 'v SensorData list
     \<Rightarrow> (string \<times> 'v SensorData) list \<Rightarrow> (string \<times> 'v SensorData) list outcome" where
  "merge_datas rollingData family clock [] sensorMap = Return sensorMap"
| "merge_datas rollingData family clock (data # datas) sensorMap =
     (case merge_sensors rollingData family clock (Device data) (Sensors data) sensorMap of
        Panic pn \<Rightarrow> Panic pn
      | Return sensorMap' \<Rightarrow> merge_datas rollingData family clock datas sensorMap')"

text \<open>
  The \<^verbatim>\<open>if rollingData.HasData && time.Since(rollingData.Timestamp) > rollingData.TimeBlock\<close>
  block: the sensor map and the record as they stand after it. \<open>now\<close> is the clock when
  the condition is evaluated. The block ends with \<^verbatim>\<open>rollingData.HasData = false\<close> and
  assigns no other field of the record.
\<close>

definition transpose_window ::
  "'v ReverseRollingData \<Rightarrow> string \<Rightarrow> int \<Rightarrow> (nat \<Rightarrow> int)
     \<Rightarrow> ((string \<times> 'v SensorData) list \<times> 'v ReverseRollingData) outcome" where
  "transpose_window rollingData family now clock =
     (if HasData rollingData \<and> now - RTimestamp rollingData > TimeBlock rollingData
      then (case merge_datas rollingData family clock (Datas rollingData) [] of
              Panic pn \<Rightarrow> Panic pn
            | Return sensorMap \<Rightarrow> Return (sensorMap, rollingData\<lparr>HasData := False\<rparr>))
      else Return ([], rollingData))"

text \<open>
  \<^verbatim>\<open>parseRollingData\<close> up to and including \<^verbatim>\<open>db.Close()\<close>: read the record, transpose,
  write the record back (the error of \<^verbatim>\<open>db.Set\<close> is not looked at) and close the
  handle. \<open>Inl\<close> is the early return on a failed \<^verbatim>\<open>db.Get\<close>.
\<close>

definition parseRollingData_window ::
  "int \<Rightarrow> (nat \<Rightarrow> int) \<Rightarrow> string \<Rightarrow> ('v, 'p) Database
     \<Rightarrow> (error + (string \<times> 'v SensorData) list \<times> 'v ReverseRollingData) outcome \<times> ('v, 'p) Database" where
  "parseRollingData_window now clock family d =
     (case Get ''ReverseRollingData'' unmarshal_rolling d of
        (Inl e, d1) \<Rightarrow> (Return (Inl e), d1)
      | (Inr rollingData, d1) \<Rightarrow>
          (case transpose_window rollingData family now clock of
             Panic pn \<Rightarrow> (Panic pn, d1)
           | Return (sensorMap, rollingData') \<Rightarrow>
               (Return (Inr (sensorMap, rollingData')),
                snd (Close (snd (Set_key ''ReverseRollingData'' (VRolling rollingData') d1))))))"

definition numPassivePoints :: "'v SensorData \<Rightarrow> int" where
  "numPassivePoints fp = sum_list (map (\<lambda>(sensorType, inner). int (length inner)) (Sensors fp))"

text \<open>
  The loop \<^verbatim>\<open>for sensor := range sensorMap\<close> that follows: a fingerprint below the
  minimum is skipped; the others go to \<^verbatim>\<open>processSensorData(sensorMap[sensor])\<close>, with
  no \<^verbatim>\<open>justSave\<close> argument. An error it returns is logged and the loop goes on; a panic
  ends the goroutine (and the process).
\<close>

fun parseRollingData_emit ::
  "('v SensorData \<Rightarrow> ('v, 'p) Database \<Rightarrow> error option \<times> ('v, 'p) Database)
     \<Rightarrow> int \<Rightarrow> (string \<times> 'v SensorData) list \<Rightarrow> ('v, 'p) Server \<Rightarrow> unit outcome \<times> ('v, 'p) Server" where
  "parseRollingData_emit save minimumPassive [] sv = (Return (), sv)"
| "parseRollingData_emit save minimumPassive ((sensor, fp) # rest) sv =
     (if numPassivePoints fp < minimumPassive
      then parseRollingData_emit save minimumPassive rest sv
      else (case processSensorData save fp [] sv of
              (Panic pn, sv') \<Rightarrow> (Panic pn, sv')
            | (Return err, sv') \<Rightarrow> parseRollingData_emit save minimumPassive rest sv'))"


text \<open>
  The record \<^verbatim>\<open>handlerReverse\<close> starts from when \<^verbatim>\<open>db.Get\<close> fails; the fields the
  literal leaves out have their zero values.
\<close>

definition defaultRolling :: "string \<Rightarrow> 'v ReverseRollingData" where
  "defaultRolling family =
     \<lparr>RFamily = family, RTimestamp = 0, TimeBlock = 90 * 1000000000, HasData = False,
      Datas = [], DeviceLocation = [], DeviceGPS = [], MinimumPassive = 0\<rparr>"

text \<open>
  \<^verbatim>\<open>handlerReverse\<close>, from the sample \<open>d0\<close> that \<^verbatim>\<open>c.BindJSON\<close> produced on: validate,
  normalise the family, read the record (defaults when that fails), open a window when
  none is open, append the sample, write the record, start \<^verbatim>\<open>parseRollingData\<close>. The
  result is the error of the inner function; the text of the response is not modelled.
\<close>

definition handlerReverse ::
  "('v SensorData \<Rightarrow> error option) \<Rightarrow> (string \<Rightarrow> string) \<Rightarrow> int \<Rightarrow> 'v SensorData \<Rightarrow> ('v, 'p) Server
     \<Rightarrow> error option \<times> ('v, 'p) Server" where
  "handlerReverse Validate lower_trim now d0 sv =
     (case Validate d0 of
        Some e \<Rightarrow> (Some e, sv)
      | None \<Rightarrow>
          (let d = d0\<lparr>Family := lower_trim (Family d0)\<rparr> in
           case Get ''ReverseRollingData'' unmarshal_rolling (db sv) of
             (res, d1) \<Rightarrow>
               (let rd0 = (case res of Inl e \<Rightarrow> defaultRolling (Family d) | Inr r \<Rightarrow> r);
                    rd1 = (if TimeBlock rd0 = 0 then rd0\<lparr>TimeBlock := 90 * 1000000000\<rparr> else rd0);
                    rd2 = (if \<not> HasData rd1
                           then rd1\<lparr>RTimestamp := now, Datas := [], HasData := True\<rparr>
                           else rd1)
                in if length (Sensors d) = 0
                   then (Some (New ''no fingerprints''), sv\<lparr>db := d1\<rparr>)
                   else (case Set_key ''ReverseRollingData''
                                (VRolling (rd2\<lparr>Datas := Datas rd2 @ [d]\<rparr>)) d1 of
                           (Some e, d2) \<Rightarrow> (Some e, sv\<lparr>db := d2\<rparr>)
                         | (None, d2) \<Rightarrow>
                             (None, sv\<lparr>db := d2,
                                       goroutines :=
                                         goroutines sv @ [Go_parseRollingData (Family d)]\<rparr>)))))"


section \<open>The window as the spec describes it\<close>

text \<open>
  The spec speaks of the pairs (category, mac) that occur in the samples of a window, of
  the synthetic name of a pair and of what each scanner reported for it. These
  definitions follow the spec's words; the theorems compare them with what
  \<^verbatim>\<open>parseRollingData\<close> builds. An observation is one entry of one inner map of one
  sample; \<open>observations\<close> lists them in the order the three loops visit them.
\<close>

datatype 'v observation =
  Observation (category: string) (mac: string) (scanner: string) (rssi: 'v)

definition observations :: "'v SensorData list \<Rightarrow> 'v observation list" where
  "observations datas =
     concat (map (\<lambda>data.
       concat (map (\<lambda>(sensor, macs).
         map (\<lambda>(mac, rssi). Observation sensor mac (Device data) rssi) macs) (Sensors data))) datas)"

definition window_pairs :: "'v observation list \<Rightarrow> (string \<times> string) set" where
  "window_pairs obs = (\<lambda>ob. (category ob, mac ob)) ` set obs"

definition tracked_name :: "string \<times> string \<Rightarrow> string" where
  "tracked_name pair = fst pair @ ''-'' @ snd pair"

text \<open>
  The reports about the pair \<open>(c, m)\<close>, oldest first, each under the key
  \<^verbatim>\<open>d.device + "-" + c\<close> of the scanner that made it.
\<close>

definition reports :: "'v observation list \<Rightarrow> string \<Rightarrow> string \<Rightarrow> (string \<times> 'v) list" where
  "reports obs c m =
     map (\<lambda>ob. (scanner ob @ ''-'' @ c, rssi ob)) (filter (\<lambda>ob. category ob = c \<and> mac ob = m) obs)"

text \<open>
  Two devices for the proofs: the three loops as one loop over the observations, and
  what it means for a sensor map to be the transposition of a list of observations.
\<close>

fun merge_obs ::
  "'v ReverseRollingData \<Rightarrow> string \<Rightarrow> (nat \<Rightarrow> int) \<Rightarrow> 'v observation list
     \<Rightarrow> (string \<times> 'v SensorData) list \<Rightarrow> (string \<times> 'v SensorData) list outcome" where
  "merge_obs rollingData family clock [] sensorMap = Return sensorMap"
| "merge_obs rollingData family clock (ob # obs) sensorMap =
     (case observe rollingData family clock (scanner ob) (category ob) (mac ob) (rssi ob) sensorMap of
        Panic pn \<Rightarrow> Panic pn
      | Return sensorMap' \<Rightarrow> merge_obs rollingData family clock obs sensorMap')"

definition transposed :: "string \<Rightarrow> 'v observation list \<Rightarrow> (string \<times> 'v SensorData) list \<Rightarrow> bool" where
  "transposed family obs sensorMap \<longleftrightarrow>
     distinct (map fst sensorMap) \<and>
     fst ` set sensorMap = tracked_name ` window_pairs obs \<and>
     (\<forall>pair \<in> window_pairs obs. \<exists>fp inner.
        map_of sensorMap (tracked_name pair) = Some fp \<and>
        Device fp = tracked_name pair \<and> Family fp = family \<and>
        Sensors fp = [(fst pair, inner)] \<and> distinct (map fst inner) \<and>
        map_of inner = map_of (rev (reports obs (fst pair) (snd pair))))"

text \<open>The rows \<^verbatim>\<open>SetGPS\<close> writes for a sample, in the order of its loops.\<close>

definition gps_rows :: "'v SensorData \<Rightarrow> (string \<times> (string \<times> 'v) list) list \<Rightarrow> gps_row list" where
  "gps_rows p sens =
     concat (map (\<lambda>(sensorType, macs). map (\<lambda>(mac, v). gps_row_of p sensorType mac) macs) sens)"

section \<open>Concrete inputs\<close>

text \<open>
  The inputs on which the definitions are run below. \<open>toy_sizer\<close> stands in for the
  string sizer library: its state is the saved string, which it never extends, and a map
  is encoded by its keys.
\<close>

definition toy_sizer :: "(string, int) stringsizer" where
  "toy_sizer = \<lparr>ss_New = (\<lambda>s. Inr s), ss_Current = (\<lambda>st. st),
                 ShrinkMapToString = (\<lambda>st m. (concat (map fst m), st)), ss_Save = (\<lambda>st. st)\<rparr>"

definition db0 :: "(int, real) Database" where
  "db0 = \<lparr>name = ''find3_default'', isClosed = False, sql_closed = False, faults = [],
          columns = [''timestamp'', ''deviceid'', ''locationid'', ''bluetooth''],
          keystore = [(''sensorDataStringSizer'', VString '''')],
          sensors = [], location_predictions = [], gps = [], open_txs = [],
          Locked = [], effects = []\<rparr>"

definition sample0 :: "int SensorData" where
  "sample0 = \<lparr>Timestamp = 1000, Family = ''home'', Device = ''phone'', Location = ''kitchen'',
              GPS = zero_GPS, Sensors = [(''bluetooth'', [(''aa:bb'', - 40)])]\<rparr>"

definition analysis0 :: "real LocationAnalysis" where
  "analysis0 = \<lparr>Guesses = [\<lparr>PredLocation = ''kitchen'', Probability = 0.78, ActiveMins = 0\<rparr>]\<rparr>"

text \<open>
  The window of the spec's passive scenario: scanner \<open>s1\<close> saw \<open>aa:bb\<close>, scanner
  \<open>s2\<close> saw \<open>aa:bb\<close> and \<open>cc:dd\<close>; the window opened at time 0 and is 90 s long.
\<close>

definition scan1 :: "int SensorData" where
  "scan1 = \<lparr>Timestamp = 1000, Family = ''home'', Device = ''s1'', Location = '''',
            GPS = zero_GPS, Sensors = [(''bluetooth'', [(''aa:bb'', - 50)])]\<rparr>"

definition scan2 :: "int SensorData" where
  "scan2 = \<lparr>Timestamp = 2000, Family = ''home'', Device = ''s2'', Location = '''',
            GPS = zero_GPS, Sensors = [(''bluetooth'', [(''aa:bb'', - 70), (''cc:dd'', - 55)])]\<rparr>"

definition rolling0 :: "int ReverseRollingData" where
  "rolling0 = \<lparr>RFamily = ''home'', RTimestamp = 0, TimeBlock = 90000000000, HasData = True,
               Datas = [scan1, scan2], DeviceLocation = [], DeviceGPS = [], MinimumPassive = 0\<rparr>"

definition db1 :: "(int, real) Database" where
  "db1 = db0\<lparr>keystore := [(''sensorDataStringSizer'', VString ''''),
                            (''ReverseRollingData'', VRolling rolling0)]\<rparr>"

definition clock0 :: "nat \<Rightarrow> int" where
  "clock0 k = 91000000000 + 10000000 * int k"

text \<open>The two fingerprints that window transposes to, and a later sample of scanner \<open>s1\<close>.\<close>

definition tracked_aabb :: "int SensorData" where
  "tracked_aabb =
     \<lparr>Timestamp = 91000, Family = ''home'', Device = ''bluetooth-aa:bb'', Location = '''',
      GPS = zero_GPS,
      Sensors = [(''bluetooth'', [(''s1-bluetooth'', - 50), (''s2-bluetooth'', - 70)])]\<rparr>"

definition tracked_ccdd :: "int SensorData" where
  "tracked_ccdd =
     \<lparr>Timestamp = 91010, Family = ''home'', Device = ''bluetooth-cc:dd'', Location = '''',
      GPS = zero_GPS, Sensors = [(''bluetooth'', [(''s2-bluetooth'', - 55)])]\<rparr>"

definition scan3 :: "int SensorData" where
  "scan3 = \<lparr>Timestamp = 95000, Family = ''home'', Device = ''s1'', Location = '''',
            GPS = zero_GPS, Sensors = [(''bluetooth'', [(''aa:bb'', - 52)])]\<rparr>"

text \<open>
  The database that window leaves behind, seen through a handle that is open: what a
  later request finds when its handle works.
\<close>

definition db2 :: "(int, real) Database" where
  "db2 = (snd (parseRollingData_window 91000000000 clock0 ''home'' db1))
           \<lparr>isClosed := False, sql_closed := False\<rparr>"

text \<open>
  A sample with a position and two devices in sight, and a database whose driver lets
  Begin, Prepare and the first Exec succeed and fails the second Exec.
\<close>

definition gps_sample :: "int SensorData" where
  "gps_sample = \<lparr>Timestamp = 3000, Family = ''home'', Device = ''phone'', Location = ''kitchen'',
                 GPS = \<lparr>Latitude = 1, Longitude = 2, Altitude = 0\<rparr>,
                 Sensors = [(''bluetooth'', [(''aa:bb'', - 40), (''cc:dd'', - 60)])]\<rparr>"

definition db_exec_fails :: "(int, real) Database" where
  "db_exec_fails = db0\<lparr>faults := [None, None, None, Some ''Error 1205: Lock wait timeout exceeded'']\<rparr>"


text \<open>
  A sample in which two different pairs, (\<open>a\<close>, \<open>b-c\<close>) and (\<open>a-b\<close>, \<open>c\<close>), have the
  same synthetic name \<open>a-b-c\<close>, and the window that holds it.
\<close>

definition clash_scan :: "int SensorData" where
  "clash_scan = \<lparr>Timestamp = 1000, Family = ''home'', Device = ''s1'', Location = [],
                 GPS = zero_GPS,
                 Sensors = [(''a'', [(''b-c'', - 50)]), (''a-b'', [(''c'', - 60)])]\<rparr>"

definition rolling_clash :: "int ReverseRollingData" where
  "rolling_clash = rolling0\<lparr>Datas := [clash_scan]\<rparr>"


section \<open>Basic facts about the database operations\<close>

lemma driver_call_ok: "\<not> sql_closed d \<Longrightarrow> faults d = [] \<Longrightarrow> driver_call d = (None, d)"
  by (simp add: driver_call_def)

lemma Get_ok:
  "\<not> sql_closed d \<Longrightarrow> faults d = [] \<Longrightarrow> map_of (keystore d) key = Some v \<Longrightarrow>
   Get key unmarshal d = (unmarshal v, d)"
  by (simp add: Get_def driver_call_ok)

lemma Set_key_ok:
  "\<not> sql_closed d \<Longrightarrow> faults d = [] \<Longrightarrow>
   Set_key key v d = (None, d\<lparr>keystore := AList.update key v (keystore d)\<rparr>)"
  by (simp add: Set_key_def driver_call_ok)

lemma keystore_Close: "keystore (snd (Close d)) = keystore d"
  by (simp add: Close_def sql_Close_def split: prod.split list.split)

lemma map_of_update_same: "map_of (AList.update k v al) k = Some v"
  by (simp add: update_conv')

lemma rolling0_fields:
  "HasData rolling0" "RTimestamp rolling0 = 0" "TimeBlock rolling0 = 90000000000"
  "Datas rolling0 = [scan1, scan2]" "MinimumPassive rolling0 = 0"
  "DeviceLocation rolling0 = []" "DeviceGPS rolling0 = []"
  by (simp_all add: rolling0_def)

lemma merge_rolling0:
  "merge_datas rolling0 ''home'' clock0 (Datas rolling0) [] =
   Return [(''bluetooth-aa:bb'', tracked_aabb), (''bluetooth-cc:dd'', tracked_ccdd)]"
  by (simp add: rolling0_fields scan1_def scan2_def observe_def Let_def clock0_def
      signed_divide_int_def tracked_aabb_def tracked_ccdd_def)

lemma db1_fields:
  "\<not> sql_closed db1" "faults db1 = []"
  "map_of (keystore db1) ''ReverseRollingData'' = Some (VRolling rolling0)"
  by (simp_all add: db1_def db0_def)

lemma AddSensor_sample0:
  "AddSensor toy_sizer sample0 db0 = (None, db0\<lparr>sensors := [(1000, ''phone'', ''kitchen'', ''aa:bb'')]\<rparr>)"
  by (simp add: AddSensor_def Columns_def Get_def driver_call_def db0_def sample0_def toy_sizer_def
      unmarshal_string_def index_map_def insert_sensor_def)

section \<open>Closing a handle twice\<close>

lemma isClosed_Close: "isClosed (snd (Close d))"
  by (simp add: Close_def split: prod.split)

lemma Close_closed: "isClosed d \<Longrightarrow> Close d = (None, d)"
  by (simp add: Close_def)

text \<open>
  C10. \<^verbatim>\<open>Close\<close> is idempotent: a \<^verbatim>\<open>Close\<close> that follows a \<^verbatim>\<open>Close\<close> on the same
  handle returns nil and leaves the handle, the connection, the lock table and the log of
  effects exactly as the first one left them, and so does any number of further calls;
  the connection is closed and the lock entry deleted at most once more than before the
  calls.
\<close>

theorem Close_idempotent:
  "Close (snd (Close d)) = (None, snd (Close d)) \<and>
   ((\<lambda>d. snd (Close d)) ^^ n) (snd (Close d)) = snd (Close d) \<and>
   length (filter (\<lambda>e. e = SqlClose) (effects (snd (Close (snd (Close d))))))
     \<le> Suc (length (filter (\<lambda>e. e = SqlClose) (effects d))) \<and>
   length (filter (\<lambda>e. e = LockDelete (name d)) (effects (snd (Close (snd (Close d))))))
     \<le> Suc (length (filter (\<lambda>e. e = LockDelete (name d)) (effects d)))"
proof -
  have twice: "Close (snd (Close d)) = (None, snd (Close d))"
    by (rule Close_closed) (rule isClosed_Close)
  have many: "((\<lambda>d. snd (Close d)) ^^ n) (snd (Close d)) = snd (Close d)"
    by (induction n) (simp_all add: twice)
  have once: "length (filter (\<lambda>e. e = SqlClose) (effects (snd (Close d))))
      \<le> Suc (length (filter (\<lambda>e. e = SqlClose) (effects d)))"
    by (auto simp: Close_def sql_Close_def split: prod.split list.split)
  have lock: "length (filter (\<lambda>e. e = LockDelete (name d)) (effects (snd (Close d))))
      \<le> Suc (length (filter (\<lambda>e. e = LockDelete (name d)) (effects d)))"
    by (auto simp: Close_def sql_Close_def split: prod.split list.split)
  show ?thesis using once lock many by (simp add: twice)
qed

text \<open>
  On a handle that was open, with a driver that reports an error on closing: the first
  \<^verbatim>\<open>Close\<close> returns that error, the second returns nil and changes nothing.
\<close>

theorem Close_idempotent_witness:
  "Close (db0\<lparr>faults := [Some ''bad connection'']\<rparr>)
     = (Some (Driver ''bad connection''),
        db0\<lparr>isClosed := True, sql_closed := True,
            effects := [SqlClose, LockDelete ''find3_default'']\<rparr>) \<and>
   Close (snd (Close (db0\<lparr>faults := [Some ''bad connection'']\<rparr>)))
     = (None, db0\<lparr>isClosed := True, sql_closed := True,
                  effects := [SqlClose, LockDelete ''find3_default'']\<rparr>)"
proof -
  have c: "Close (db0\<lparr>faults := [Some ''bad connection'']\<rparr>)
     = (Some (Driver ''bad connection''),
        db0\<lparr>isClosed := True, sql_closed := True,
            effects := [SqlClose, LockDelete ''find3_default'']\<rparr>)"
    by (simp add: Close_def sql_Close_def db0_def)
  show ?thesis
    using Close_idempotent [of "db0\<lparr>faults := [Some ''bad connection'']\<rparr>" 0]
    by (simp add: c)
qed

section \<open>Predictions\<close>

text \<open>
  C9. \<^verbatim>\<open>AddPrediction\<close> with an empty list returns the error
  \<^verbatim>\<open>"no predictions to add"\<close> and leaves the whole database state as it was: no driver
  call is made, and table \<^verbatim>\<open>location_predictions\<close> keeps every stored prediction.
\<close>

theorem AddPrediction_empty:
  "AddPrediction trunc2 timestamp [] d = (Some (New ''no predictions to add''), d) \<and>
   map_of (location_predictions (snd (AddPrediction trunc2 timestamp [] d))) timestamp
     = map_of (location_predictions d) timestamp"
  by (simp add: AddPrediction_def)

theorem AddPrediction_empty_witness:
  "AddPrediction (\<lambda>p. p) 1000 []
      (db0\<lparr>location_predictions := [(1000, Guesses analysis0)]\<rparr>)
     = (Some (New ''no predictions to add''),
        db0\<lparr>location_predictions := [(1000, Guesses analysis0)]\<rparr>) \<and>
   map_of (location_predictions (snd (AddPrediction (\<lambda>p. p) 1000 []
      (db0\<lparr>location_predictions := [(1000, Guesses analysis0)]\<rparr>)))) 1000
     = Some (Guesses analysis0)"
  using AddPrediction_empty
    [of "\<lambda>p. p" 1000 "db0\<lparr>location_predictions := [(1000, Guesses analysis0)]\<rparr>"]
  by simp

text \<open>
  With a list that is not empty, a call that returns no error has replaced the row of
  that timestamp: the list, each probability passed through the floating-point
  expression.
\<close>

lemma AddPrediction_stores:
  "aidata \<noteq> [] \<Longrightarrow> fst (AddPrediction trunc2 timestamp aidata d) = None \<Longrightarrow>
   map_of (location_predictions (snd (AddPrediction trunc2 timestamp aidata d))) timestamp
     = Some (map (\<lambda>a. a\<lparr>Probability := trunc2 (Probability a)\<rparr>) aidata)"
  by (auto simp: AddPrediction_def Let_def update_conv' split: prod.splits option.splits)

section \<open>Ingestion: \<^verbatim>\<open>processSensorData\<close>\<close>

lemma processSensorData_justSave_true:
  "processSensorData save p [True] sv =
     (case save p (db sv) of
        (Some e, d1) \<Rightarrow> (Return (Some e), sv\<lparr>db := d1\<rparr>)
      | (None, d1) \<Rightarrow> (Return None, sv\<lparr>db := d1\<rparr>))"
  by (simp add: processSensorData_def split: prod.split option.split)

lemma processSensorData_justSave_false:
  "processSensorData save p [False] sv =
     (case save p (db sv) of
        (Some e, d1) \<Rightarrow> (Return (Some e), sv\<lparr>db := d1\<rparr>)
      | (None, d1) \<Rightarrow>
          (Return None, sv\<lparr>db := d1, goroutines := goroutines sv @ [Go_sendOutData p]\<rparr>))"
  by (simp add: processSensorData_def split: prod.split option.split)

text \<open>
  C3 (what the code does). Called with no \<^verbatim>\<open>justSave\<close> argument,
  \<^verbatim>\<open>processSensorData\<close> returns the error of a failed save, and after a save that
  succeeded it panics with an index out of range: the delivery is not started and the
  call does not complete. (With \<^verbatim>\<open>true\<close> it saves and skips the delivery, with
  \<^verbatim>\<open>false\<close> it saves and starts it: the two lemmas above.)
\<close>

theorem processSensorData_justSave_omitted:
  "processSensorData save p [] sv =
     (case save p (db sv) of
        (Some e, d1) \<Rightarrow> (Return (Some e), sv\<lparr>db := d1\<rparr>)
      | (None, d1) \<Rightarrow> (Panic IndexOutOfRange, sv\<lparr>db := d1\<rparr>))"
  by (simp add: processSensorData_def split: prod.split option.split)

theorem processSensorData_justSave_omitted_witness:
  "processSensorData (SaveSensorData (\<lambda>s. None) toy_sizer) sample0 []
      \<lparr>db = db0, goroutines = []\<rparr>
   = (Panic IndexOutOfRange,
      \<lparr>db = db0\<lparr>sensors := [(1000, ''phone'', ''kitchen'', ''aa:bb'')]\<rparr>, goroutines = []\<rparr>)"
  using processSensorData_justSave_omitted
    [of "SaveSensorData (\<lambda>s. None) toy_sizer" sample0 "\<lparr>db = db0, goroutines = []\<rparr>"]
  by (simp add: SaveSensorData_def AddSensor_sample0) (simp add: sample0_def zero_GPS_def)

section \<open>Delivery: \<^verbatim>\<open>sendOutData\<close>\<close>

text \<open>
  C7 (amended). Every message \<^verbatim>\<open>sendOutData\<close> publishes carries a payload whose
  \<^verbatim>\<open>sensors.gps\<close> has the latitude and longitude of the GPS data of the top guess's
  location when \<^verbatim>\<open>GetGPSData\<close> succeeded and holds that location, and latitude
  \<open>-1\<close> and longitude \<open>-1\<close> otherwise; in both cases the altitude is the one the
  sample came with.
\<close>

theorem sendOutData_gps:
  assumes "Guesses analysis = g # gs"
    and "msg \<in> set (snd (sendOutData lower_trim UseMQTT analysis gpsData gpsErr marshal_err p))"
  shows "GPS (PSensors (msg_payload msg)) =
           (case map_of gpsData (PredLocation g) of
              Some loc \<Rightarrow>
                (if gpsErr = None
                 then \<lparr>Latitude = Latitude loc, Longitude = Longitude loc, Altitude = Altitude (GPS p)\<rparr>
                 else \<lparr>Latitude = - 1, Longitude = - 1, Altitude = Altitude (GPS p)\<rparr>)
            | None \<Rightarrow> \<lparr>Latitude = - 1, Longitude = - 1, Altitude = Altitude (GPS p)\<rparr>)"
  using assms
  by (auto simp: sendOutData_def Let_def split: option.splits if_splits)

text \<open>
  C7 as stated fails: the location is absent from the GPS data, and the payload's
  \<^verbatim>\<open>gps\<close> is \<open>{-1, -1, 5}\<close> for a sample that came with altitude 5, not
  \<open>{-1, -1, 0}\<close>.
\<close>

theorem sendOutData_gps_counterexample:
  "map_of ([] :: (string \<times> GPS) list) (PredLocation (hd (Guesses analysis0))) = None \<and>
   snd (sendOutData id False analysis0 [] None (\<lambda>pl. None)
          (sample0\<lparr>GPS := \<lparr>Latitude = 0, Longitude = 0, Altitude = 5\<rparr>\<rparr>)) \<noteq> [] \<and>
   GPS (PSensors (msg_payload (hd (snd (sendOutData id False analysis0 [] None (\<lambda>pl. None)
          (sample0\<lparr>GPS := \<lparr>Latitude = 0, Longitude = 0, Altitude = 5\<rparr>\<rparr>))))))
     \<noteq> \<lparr>Latitude = - 1, Longitude = - 1, Altitude = 0\<rparr>"
  by (simp add: sendOutData_def Let_def analysis0_def sample0_def)

theorem sendOutData_gps_witness:
  "Websockets ''home'' ''phone''
      \<lparr>PSensors = sample0\<lparr>GPS := \<lparr>Latitude = 1, Longitude = 2, Altitude = 0\<rparr>\<rparr>,
       PGuesses = Guesses analysis0, PLocation = ''kitchen'', PTime = 1000\<rparr>
     \<in> set (snd (sendOutData id False analysis0
                [(''kitchen'', \<lparr>Latitude = 1, Longitude = 2, Altitude = 3\<rparr>)] None (\<lambda>pl. None) sample0)) \<and>
   GPS (PSensors (msg_payload (Websockets ''home'' ''phone''
      \<lparr>PSensors = sample0\<lparr>GPS := \<lparr>Latitude = 1, Longitude = 2, Altitude = 0\<rparr>\<rparr>,
       PGuesses = Guesses analysis0, PLocation = ''kitchen'', PTime = 1000\<rparr>)))
     = \<lparr>Latitude = 1, Longitude = 2, Altitude = 0\<rparr>"
proof -
  have g: "Guesses analysis0 = \<lparr>PredLocation = ''kitchen'', Probability = 0.78, ActiveMins = 0\<rparr> # []"
    by (simp add: analysis0_def)
  have m: "Websockets ''home'' ''phone''
      \<lparr>PSensors = sample0\<lparr>GPS := \<lparr>Latitude = 1, Longitude = 2, Altitude = 0\<rparr>\<rparr>,
       PGuesses = Guesses analysis0, PLocation = ''kitchen'', PTime = 1000\<rparr>
     \<in> set (snd (sendOutData id False analysis0
                [(''kitchen'', \<lparr>Latitude = 1, Longitude = 2, Altitude = 3\<rparr>)] None (\<lambda>pl. None) sample0))"
    by (simp add: sendOutData_def Let_def analysis0_def sample0_def zero_GPS_def)
  show ?thesis using m sendOutData_gps [OF g m] by (simp add: sample0_def zero_GPS_def)
qed

section \<open>The reverse window: the record written back\<close>

text \<open>
  C6 (amended). When \<^verbatim>\<open>parseRollingData\<close> transposes an open, expired window (and
  the database calls succeed), the record it writes back is the record it read with
  \<^verbatim>\<open>hasData\<close> set to false and \<^verbatim>\<open>datas\<close> unchanged. The next sample that
  \<^verbatim>\<open>handlerReverse\<close> takes in on a working handle finds \<^verbatim>\<open>hasData\<close> false and
  opens a fresh window: timestamp now, \<^verbatim>\<open>datas\<close> that sample alone.
\<close>

theorem window_record_after_transpose:
  assumes "\<not> sql_closed d" and "faults d = []"
    and "map_of (keystore d) ''ReverseRollingData'' = Some (VRolling rd)"
    and "HasData rd" and "TimeBlock rd < now - RTimestamp rd"
    and "merge_datas rd family clock (Datas rd) [] = Return sensorMap"
  shows "fst (parseRollingData_window now clock family d)
           = Return (Inr (sensorMap, rd\<lparr>HasData := False\<rparr>)) \<and>
         map_of (keystore (snd (parseRollingData_window now clock family d))) ''ReverseRollingData''
           = Some (VRolling (rd\<lparr>HasData := False\<rparr>)) \<and>
         Datas (rd\<lparr>HasData := False\<rparr>) = Datas rd \<and>
         (\<forall>sv d0. \<not> sql_closed (db sv) \<and> faults (db sv) = [] \<and>
              map_of (keystore (db sv)) ''ReverseRollingData'' = Some (VRolling (rd\<lparr>HasData := False\<rparr>)) \<and>
              Validate d0 = None \<and> Sensors d0 \<noteq> [] \<longrightarrow>
            fst (handlerReverse Validate lower_trim now' d0 sv) = None \<and>
            map_of (keystore (db (snd (handlerReverse Validate lower_trim now' d0 sv))))
                ''ReverseRollingData''
              = Some (VRolling (rd\<lparr>TimeBlock := (if TimeBlock rd = 0 then 90 * 1000000000
                                                   else TimeBlock rd),
                                     RTimestamp := now',
                                     Datas := [d0\<lparr>Family := lower_trim (Family d0)\<rparr>],
                                     HasData := True\<rparr>)))"
proof -
  have get: "Get ''ReverseRollingData'' unmarshal_rolling d = (Inr rd, d)"
    using assms(1-3) by (simp add: Get_ok unmarshal_rolling_def)
  have tr: "transpose_window rd family now clock = Return (sensorMap, rd\<lparr>HasData := False\<rparr>)"
    using assms(4-6) by (simp add: transpose_window_def)
  have win: "parseRollingData_window now clock family d =
      (Return (Inr (sensorMap, rd\<lparr>HasData := False\<rparr>)),
       snd (Close (d\<lparr>keystore := AList.update ''ReverseRollingData''
                                    (VRolling (rd\<lparr>HasData := False\<rparr>)) (keystore d)\<rparr>)))"
    using assms(1,2) by (simp add: parseRollingData_window_def get tr Set_key_ok)
  have c1: "fst (parseRollingData_window now clock family d)
           = Return (Inr (sensorMap, rd\<lparr>HasData := False\<rparr>))"
    by (simp add: win)
  have c2: "map_of (keystore (snd (parseRollingData_window now clock family d))) ''ReverseRollingData''
           = Some (VRolling (rd\<lparr>HasData := False\<rparr>))"
    by (simp add: win keystore_Close map_of_update_same)
  have c4: "fst (handlerReverse Validate lower_trim now' d0 sv) = None \<and>
            map_of (keystore (db (snd (handlerReverse Validate lower_trim now' d0 sv))))
                ''ReverseRollingData''
              = Some (VRolling (rd\<lparr>TimeBlock := (if TimeBlock rd = 0 then 90 * 1000000000
                                                   else TimeBlock rd),
                                     RTimestamp := now',
                                     Datas := [d0\<lparr>Family := lower_trim (Family d0)\<rparr>],
                                     HasData := True\<rparr>))"
    if h: "\<not> sql_closed (db sv)" "faults (db sv) = []"
      "map_of (keystore (db sv)) ''ReverseRollingData'' = Some (VRolling (rd\<lparr>HasData := False\<rparr>))"
      "Validate d0 = None" "Sensors d0 \<noteq> []" for sv d0
  proof -
    have g: "Get ''ReverseRollingData'' unmarshal_rolling (db sv) = (Inr (rd\<lparr>HasData := False\<rparr>), db sv)"
      using h(1-3) by (simp add: Get_ok unmarshal_rolling_def)
    show ?thesis
      using h by (simp add: handlerReverse_def g Set_key_ok Let_def map_of_update_same)
  qed
  have c3: "Datas (rd\<lparr>HasData := False\<rparr>) = Datas rd"
    by simp
  from c4 have c5: "\<forall>sv d0. \<not> sql_closed (db sv) \<and> faults (db sv) = [] \<and>
              map_of (keystore (db sv)) ''ReverseRollingData'' = Some (VRolling (rd\<lparr>HasData := False\<rparr>)) \<and>
              Validate d0 = None \<and> Sensors d0 \<noteq> [] \<longrightarrow>
            fst (handlerReverse Validate lower_trim now' d0 sv) = None \<and>
            map_of (keystore (db (snd (handlerReverse Validate lower_trim now' d0 sv))))
                ''ReverseRollingData''
              = Some (VRolling (rd\<lparr>TimeBlock := (if TimeBlock rd = 0 then 90 * 1000000000
                                                   else TimeBlock rd),
                                     RTimestamp := now',
                                     Datas := [d0\<lparr>Family := lower_trim (Family d0)\<rparr>],
                                     HasData := True\<rparr>))"
    by blast
  show ?thesis by (rule conjI [OF c1 conjI [OF c2 conjI [OF c3 c5]]])
qed

text \<open>
  C6 as stated fails: after the transposition of the two-sample window the record in the
  keystore has \<^verbatim>\<open>hasData\<close> false, and its \<^verbatim>\<open>datas\<close> still hold the samples.
\<close>

theorem window_record_counterexample:
  "fst (parseRollingData_window 91000000000 clock0 ''home'' db1)
     = Return (Inr ([(''bluetooth-aa:bb'', tracked_aabb), (''bluetooth-cc:dd'', tracked_ccdd)],
                    rolling0\<lparr>HasData := False\<rparr>)) \<and>
   map_of (keystore (snd (parseRollingData_window 91000000000 clock0 ''home'' db1)))
       ''ReverseRollingData''
     = Some (VRolling (rolling0\<lparr>HasData := False\<rparr>)) \<and>
   Datas (rolling0\<lparr>HasData := False\<rparr>) \<noteq> []"
proof -
  have w: "parseRollingData_window 91000000000 clock0 ''home'' db1 =
      (Return (Inr ([(''bluetooth-aa:bb'', tracked_aabb), (''bluetooth-cc:dd'', tracked_ccdd)],
                    rolling0\<lparr>HasData := False\<rparr>)),
       snd (Close (db1\<lparr>keystore := AList.update ''ReverseRollingData''
                           (VRolling (rolling0\<lparr>HasData := False\<rparr>)) (keystore db1)\<rparr>)))"
    by (simp add: parseRollingData_window_def Get_ok db1_fields unmarshal_rolling_def
        transpose_window_def rolling0_fields(1-3) merge_rolling0 Set_key_ok)
  have d: "Datas (rolling0\<lparr>HasData := False\<rparr>) \<noteq> []"
    by (simp add: rolling0_fields(4))
  show ?thesis using d by (simp add: w keystore_Close map_of_update_same)
qed

theorem window_record_after_transpose_witness:
  "map_of (keystore (snd (parseRollingData_window 91000000000 clock0 ''home'' db1)))
       ''ReverseRollingData''
     = Some (VRolling (rolling0\<lparr>HasData := False\<rparr>)) \<and>
   map_of (keystore (db (snd (handlerReverse (\<lambda>s. None) id 95000000000 scan3
                                 \<lparr>db = db2, goroutines = []\<rparr>))))
       ''ReverseRollingData''
     = Some (VRolling (rolling0\<lparr>RTimestamp := 95000000000, Datas := [scan3], HasData := True\<rparr>))"
proof -
  have m: "merge_datas rolling0 ''home'' clock0 (Datas rolling0) []
      = Return [(''bluetooth-aa:bb'', tracked_aabb), (''bluetooth-cc:dd'', tracked_ccdd)]"
    by (rule merge_rolling0)
  have e: "TimeBlock rolling0 < 91000000000 - RTimestamp rolling0"
    by (simp add: rolling0_fields)
  note T = window_record_after_transpose [where Validate = "\<lambda>s. None" and lower_trim = id
      and now' = 95000000000, OF db1_fields(1) db1_fields(2) db1_fields(3) rolling0_fields(1) e m]
  have k: "map_of (keystore db2) ''ReverseRollingData'' = Some (VRolling (rolling0\<lparr>HasData := False\<rparr>))"
    using T [THEN conjunct2, THEN conjunct1] by (simp add: db2_def)
  have o: "\<not> sql_closed db2" by (simp add: db2_def)
  have f: "faults db2 = []"
    by (simp add: db2_def parseRollingData_window_def Get_ok db1_fields unmarshal_rolling_def
      transpose_window_def rolling0_fields(1-3) merge_rolling0 Set_key_ok Close_def sql_Close_def)
  have s: "Sensors scan3 \<noteq> []" by (simp add: scan3_def)
  from T [THEN conjunct2, THEN conjunct2, THEN conjunct2]
  have "\<not> sql_closed (db \<lparr>db = db2, goroutines = []\<rparr>) \<and> faults (db \<lparr>db = db2, goroutines = []\<rparr>) = [] \<and>
      map_of (keystore (db \<lparr>db = db2, goroutines = []\<rparr>)) ''ReverseRollingData''
         = Some (VRolling (rolling0\<lparr>HasData := False\<rparr>)) \<and>
      (\<lambda>s. None) scan3 = None \<and> Sensors scan3 \<noteq> [] \<longrightarrow>
      map_of (keystore (db (snd (handlerReverse (\<lambda>s. None) id 95000000000 scan3
                                 \<lparr>db = db2, goroutines = []\<rparr>)))) ''ReverseRollingData''
        = Some (VRolling (rolling0\<lparr>TimeBlock := (if TimeBlock rolling0 = 0 then 90 * 1000000000
                                                   else TimeBlock rolling0),
                                     RTimestamp := 95000000000,
                                     Datas := [scan3\<lparr>Family := id (Family scan3)\<rparr>],
                                     HasData := True\<rparr>))"
    by blast
  then show ?thesis using T [THEN conjunct2, THEN conjunct1] k o f s
    by (simp add: rolling0_fields(3))
qed

text \<open>
  On the handle \<^verbatim>\<open>parseRollingData\<close> itself used, nothing of this happens any more: it
  has closed the handle, and every later call through it fails.
\<close>

lemma sql_closed_Close: "\<not> isClosed d \<Longrightarrow> sql_closed (snd (Close d))"
  by (auto simp: Close_def sql_Close_def split: prod.split list.split)

lemma isClosed_driver_call: "isClosed (snd (driver_call d)) = isClosed d"
  by (simp add: driver_call_def split: list.split)

lemma isClosed_Get: "isClosed (snd (Get key unmarshal d)) = isClosed d"
  by (auto simp: Get_def driver_call_def split: list.split option.split)

lemma isClosed_Set_key: "isClosed (snd (Set_key key v d)) = isClosed d"
  by (auto simp: Set_key_def driver_call_def split: list.split option.split)

lemma parseRollingData_window_closes:
  assumes "\<not> isClosed d"
    and "fst (parseRollingData_window now clock family d) = Return (Inr res)"
  shows "sql_closed (snd (parseRollingData_window now clock family d))"
proof -
  obtain r d1 where g: "Get ''ReverseRollingData'' unmarshal_rolling d = (r, d1)"
    by (cases "Get ''ReverseRollingData'' unmarshal_rolling d")
  have o: "\<not> isClosed d1" using isClosed_Get [of "''ReverseRollingData''" unmarshal_rolling d] assms(1)
    by (simp add: g)
  have c: "sql_closed (snd (Close (snd (Set_key key v d1))))" for key v
    using sql_closed_Close [of "snd (Set_key key v d1)"] o by (simp add: isClosed_Set_key)
  show ?thesis using assms(2) c
    by (auto simp: parseRollingData_window_def g split: sum.splits outcome.splits)
qed

lemma handlerReverse_closed_handle:
  "sql_closed (db sv) \<Longrightarrow> Validate d0 = None \<Longrightarrow> Sensors d0 \<noteq> [] \<Longrightarrow>
   handlerReverse Validate lower_trim now d0 sv =
     (Some (Wrap (Driver ''sql: database is closed'') ''Set''), sv)"
  by (simp add: handlerReverse_def Get_def Set_key_def driver_call_def Let_def)

section \<open>The reverse window: emission\<close>



text \<open>
  The fingerprints below the minimum play no part in the loop: it runs as it would on
  the map without them, and goes through a map that holds only such fingerprints without
  a call.
\<close>

lemma parseRollingData_emit_skips:
  "parseRollingData_emit save minimumPassive sensorMap sv =
   parseRollingData_emit save minimumPassive
     (filter (\<lambda>(sensor, fp). \<not> numPassivePoints fp < minimumPassive) sensorMap) sv"
  by (induction sensorMap arbitrary: sv) (auto split: prod.split outcome.split)

lemma parseRollingData_emit_all_below:
  "list_all (\<lambda>(sensor, fp). numPassivePoints fp < minimumPassive) sensorMap \<Longrightarrow>
   parseRollingData_emit save minimumPassive sensorMap sv = (Return (), sv)"
  by (induction sensorMap) auto



section \<open>GPS rows: \<^verbatim>\<open>SetGPS\<close>\<close>

lemma gps_driver_call: "gps (snd (driver_call d)) = gps d"
  by (simp add: driver_call_def split: list.split)

lemma open_txs_driver_call: "open_txs (snd (driver_call d)) = open_txs d"
  by (simp add: driver_call_def split: list.split)

lemma gps_tx_Exec: "gps (snd (tx_Exec row d)) = gps d"
  using gps_driver_call [of d] by (auto simp: tx_Exec_def split: prod.split option.split)

lemma tx_Exec_ok:
  "tx_Exec row d = (None, d') \<Longrightarrow> open_txs d = tx # txs \<Longrightarrow> open_txs d' = (tx @ [row]) # txs"
  using open_txs_driver_call [of d]
  by (auto simp: tx_Exec_def split: prod.splits option.splits)

lemma gps_SetGPS_macs: "gps (snd (SetGPS_macs p sensorType macs d)) = gps d"
proof (induction macs arbitrary: d)
  case Nil
  show ?case by simp
next
  case (Cons m macs)
  obtain mac v where m: "m = (mac, v)" by (cases m)
  obtain r d1 where e: "tx_Exec (gps_row_of p sensorType mac) d = (r, d1)"
    by (cases "tx_Exec (gps_row_of p sensorType mac) d")
  have g: "gps d1 = gps d" using gps_tx_Exec [of "gps_row_of p sensorType mac" d] by (simp add: e)
  show ?case using Cons.IH [of d1] g by (cases r) (simp_all add: m e)
qed

lemma SetGPS_macs_ok:
  "SetGPS_macs p sensorType macs d = (None, d') \<Longrightarrow> open_txs d = tx # txs \<Longrightarrow>
   open_txs d' = (tx @ map (\<lambda>(mac, v). gps_row_of p sensorType mac) macs) # txs"
proof (induction macs arbitrary: d tx)
  case Nil
  then show ?case by simp
next
  case (Cons m macs)
  obtain mac v where m: "m = (mac, v)" by (cases m)
  obtain r d1 where e: "tx_Exec (gps_row_of p sensorType mac) d = (r, d1)"
    by (cases "tx_Exec (gps_row_of p sensorType mac) d")
  from Cons.prems(1) have r: "r = None" and rest: "SetGPS_macs p sensorType macs d1 = (None, d')"
    by (cases r; simp add: m e)+
  have "open_txs d1 = (tx @ [gps_row_of p sensorType mac]) # txs"
    using tx_Exec_ok [of _ d d1 tx txs] e r Cons.prems(2) by simp
  from Cons.IH [OF rest this] show ?case by (simp add: m)
qed

lemma gps_SetGPS_sensors: "gps (snd (SetGPS_sensors p sens d)) = gps d"
proof (induction sens arbitrary: d)
  case Nil
  show ?case by simp
next
  case (Cons s sens)
  obtain sensorType macs where s: "s = (sensorType, macs)" by (cases s)
  obtain r d1 where e: "SetGPS_macs p sensorType macs d = (r, d1)"
    by (cases "SetGPS_macs p sensorType macs d")
  have g: "gps d1 = gps d" using gps_SetGPS_macs [of p sensorType macs d] by (simp add: e)
  show ?case using Cons.IH [of d1] g by (cases r) (simp_all add: s e)
qed

lemma SetGPS_sensors_ok:
  "SetGPS_sensors p sens d = (None, d') \<Longrightarrow> open_txs d = tx # txs \<Longrightarrow>
   open_txs d' = (tx @ gps_rows p sens) # txs"
proof (induction sens arbitrary: d tx)
  case Nil
  then show ?case by (simp add: gps_rows_def)
next
  case (Cons s sens)
  obtain sensorType macs where s: "s = (sensorType, macs)" by (cases s)
  obtain r d1 where e: "SetGPS_macs p sensorType macs d = (r, d1)"
    by (cases "SetGPS_macs p sensorType macs d")
  from Cons.prems(1) have r: "r = None" and rest: "SetGPS_sensors p sens d1 = (None, d')"
    by (cases r; simp add: s e)+
  have "open_txs d1 = (tx @ map (\<lambda>(mac, v). gps_row_of p sensorType mac) macs) # txs"
    using SetGPS_macs_ok [of p sensorType macs d d1 tx txs] e r Cons.prems(2) by simp
  from Cons.IH [OF rest this] show ?case by (simp add: s gps_rows_def)
qed

lemma SetGPS_error_keeps_gps:
  "fst (SetGPS p d) \<noteq> None \<Longrightarrow> gps (snd (SetGPS p d)) = gps d"
  using gps_driver_call [of d] gps_driver_call [of "snd (tx_Begin d)"]
    gps_SetGPS_sensors [of p "Sensors p" "snd (driver_call (snd (tx_Begin d)))"]
    gps_driver_call [of "snd (SetGPS_sensors p (Sensors p) (snd (driver_call (snd (tx_Begin d)))))"]
  by (auto simp: SetGPS_def tx_Begin_def tx_Commit_def split: prod.splits option.splits)

lemma tx_Begin_ok:
  "tx_Begin d = (None, d') \<Longrightarrow> open_txs d' = [] # open_txs d \<and> gps d' = gps d"
  using gps_driver_call [of d] open_txs_driver_call [of d]
  by (auto simp: tx_Begin_def split: prod.splits option.splits)

lemma tx_Commit_ok:
  "tx_Commit d = (None, d') \<Longrightarrow> open_txs d = tx # txs \<Longrightarrow> gps d' = gps d @ tx"
  using gps_driver_call [of d] open_txs_driver_call [of d]
  by (auto simp: tx_Commit_def split: prod.splits option.splits)

lemma SetGPS_success_rows:
  assumes "fst (SetGPS p d) = None"
  shows "gps (snd (SetGPS p d)) = gps d @ gps_rows p (Sensors p)"
proof -
  obtain r1 d1 where b: "tx_Begin d = (r1, d1)" by (cases "tx_Begin d")
  obtain r2 d2 where q: "driver_call d1 = (r2, d2)" by (cases "driver_call d1")
  obtain r3 d3 where l: "SetGPS_sensors p (Sensors p) d2 = (r3, d3)"
    by (cases "SetGPS_sensors p (Sensors p) d2")
  obtain r4 d4 where c: "tx_Commit d3 = (r4, d4)" by (cases "tx_Commit d3")
  from assms have r: "r1 = None" "r2 = None" "r3 = None" "r4 = None"
    by (auto simp: SetGPS_def b q l c split: option.splits)
  have res: "snd (SetGPS p d) = d4"
    by (simp add: SetGPS_def b q l c r)
  have o1: "open_txs d1 = [] # open_txs d" and g1: "gps d1 = gps d"
    using tx_Begin_ok [of d d1] b r by simp_all
  have o2: "open_txs d2 = [] # open_txs d" and g2: "gps d2 = gps d"
    using open_txs_driver_call [of d1] gps_driver_call [of d1] o1 g1 by (simp_all add: q)
  have o3: "open_txs d3 = ([] @ gps_rows p (Sensors p)) # open_txs d"
    using SetGPS_sensors_ok [of p "Sensors p" d2 d3 "[]" "open_txs d"] l r o2 by simp
  have g3: "gps d3 = gps d"
    using gps_SetGPS_sensors [of p "Sensors p" d2] g2 by (simp add: l)
  have "gps d4 = gps d3 @ gps_rows p (Sensors p)"
    using tx_Commit_ok [of d3 d4 "gps_rows p (Sensors p)" "open_txs d"] c r o3 by simp
  then show ?thesis by (simp add: res g3)
qed

lemma length_open_txs_tx_Exec:
  "open_txs d \<noteq> [] \<Longrightarrow> length (open_txs (snd (tx_Exec row d))) = length (open_txs d)"
  by (auto simp: tx_Exec_def driver_call_def split: list.split option.split)

lemma length_open_txs_SetGPS_macs:
  "open_txs d \<noteq> [] \<Longrightarrow>
   length (open_txs (snd (SetGPS_macs p sensorType macs d))) = length (open_txs d)"
proof (induction macs arbitrary: d)
  case Nil
  show ?case by simp
next
  case (Cons m macs)
  obtain mac v where m: "m = (mac, v)" by (cases m)
  obtain r d1 where e: "tx_Exec (gps_row_of p sensorType mac) d = (r, d1)"
    by (cases "tx_Exec (gps_row_of p sensorType mac) d")
  have l: "length (open_txs d1) = length (open_txs d)"
    using length_open_txs_tx_Exec [OF Cons.prems, of "gps_row_of p sensorType mac"] by (simp add: e)
  then have "open_txs d1 \<noteq> []" using Cons.prems by auto
  from Cons.IH [OF this] l show ?case by (cases r) (simp_all add: m e)
qed

lemma length_open_txs_SetGPS_sensors:
  "open_txs d \<noteq> [] \<Longrightarrow>
   length (open_txs (snd (SetGPS_sensors p sens d))) = length (open_txs d)"
proof (induction sens arbitrary: d)
  case Nil
  show ?case by simp
next
  case (Cons s sens)
  obtain sensorType macs where s: "s = (sensorType, macs)" by (cases s)
  obtain r d1 where e: "SetGPS_macs p sensorType macs d = (r, d1)"
    by (cases "SetGPS_macs p sensorType macs d")
  have l: "length (open_txs d1) = length (open_txs d)"
    using length_open_txs_SetGPS_macs [OF Cons.prems, of p sensorType macs] by (simp add: e)
  then have "open_txs d1 \<noteq> []" using Cons.prems by auto
  from Cons.IH [OF this] l show ?case by (cases r) (simp_all add: s e)
qed

lemma SetGPS_leaves_transaction_open:
  assumes "tx_Begin d = (None, d1)" and "driver_call d1 = (r2, d2)"
    and "r2 \<noteq> None \<or> fst (SetGPS_sensors p (Sensors p) d2) \<noteq> None"
  shows "fst (SetGPS p d) \<noteq> None \<and>
         length (open_txs (snd (SetGPS p d))) = Suc (length (open_txs d))"
proof -
  have o1: "open_txs d1 = [] # open_txs d"
    using assms(1) by (auto simp: tx_Begin_def driver_call_def split: list.splits option.splits if_splits)
  have o2: "open_txs d2 = [] # open_txs d"
    using assms(2) o1 by (auto simp: driver_call_def split: list.splits if_splits)
  show ?thesis
  proof (cases r2)
    case (Some e)
    then show ?thesis using o2 by (simp add: SetGPS_def assms(1,2))
  next
    case None
    with assms(3) have f: "fst (SetGPS_sensors p (Sensors p) d2) \<noteq> None" by simp
    have "length (open_txs (snd (SetGPS_sensors p (Sensors p) d2))) = Suc (length (open_txs d))"
      using length_open_txs_SetGPS_sensors [of d2 p "Sensors p"] o2 by simp
    then show ?thesis using f None
      by (cases "SetGPS_sensors p (Sensors p) d2") (auto simp: SetGPS_def assms(1,2))
  qed
qed

text \<open>
  C8 (what the code does). When a write fails, \<^verbatim>\<open>SetGPS\<close> returns the wrapped error
  and table \<^verbatim>\<open>gps\<close> is as before (\<open>SetGPS_error_keeps_gps\<close>; when every call
  succeeds the table gains exactly one row per pair, \<open>SetGPS_success_rows\<close>). But the
  transaction is not rolled back: it is left open (\<open>SetGPS_leaves_transaction_open\<close>).
  Here the second of two writes fails, and the transaction stays open, holding the row of
  the first.
\<close>

theorem SetGPS_failed_write:
  "SetGPS gps_sample db_exec_fails =
     (Some (Wrap (Driver ''Error 1205: Lock wait timeout exceeded'') ''SetGPS''),
      db0\<lparr>open_txs := [[(3000, ''bluetooth-aa:bb'', ''kitchen'', 1, 2, 0)]]\<rparr>) \<and>
   gps (snd (SetGPS gps_sample db_exec_fails)) = gps db_exec_fails \<and>
   open_txs (snd (SetGPS gps_sample db_exec_fails)) \<noteq> open_txs db_exec_fails"
  by (simp add: SetGPS_def tx_Begin_def tx_Exec_def tx_Commit_def driver_call_def
      db_exec_fails_def db0_def gps_sample_def gps_row_of_def)

section \<open>Sensor rows: \<^verbatim>\<open>AddSensor\<close>\<close>

lemma driver_call_tables:
  "columns (snd (driver_call d)) = columns d"
  "sensors (snd (driver_call d)) = sensors d"
  "keystore (snd (driver_call d)) = keystore d"
  by (simp_all add: driver_call_def split: list.split)

lemma driver_call_tables':
  assumes "driver_call d = (r, d')"
  shows "columns d' = columns d" "sensors d' = sensors d" "keystore d' = keystore d"
  using driver_call_tables [of d] by (simp_all add: assms)















section \<open>The reverse window: transposition\<close>

lemma merge_obs_append:
  "merge_obs rd family clock (xs @ ys) sm =
     (case merge_obs rd family clock xs sm of
        Panic pn \<Rightarrow> Panic pn
      | Return sm' \<Rightarrow> merge_obs rd family clock ys sm')"
  by (induction xs arbitrary: sm) (simp_all split: outcome.split)

lemma merge_macs_obs:
  "merge_macs rd family clock device sensor macs sm =
   merge_obs rd family clock (map (\<lambda>(mac, rssi). Observation sensor mac device rssi) macs) sm"
  by (induction macs arbitrary: sm) (auto split: outcome.split)

lemma merge_sensors_obs:
  "merge_sensors rd family clock device sens sm =
   merge_obs rd family clock
     (concat (map (\<lambda>(sensor, macs). map (\<lambda>(mac, rssi). Observation sensor mac device rssi) macs) sens)) sm"
  by (induction sens arbitrary: sm) (auto simp: merge_macs_obs merge_obs_append split: outcome.split)

lemma merge_datas_obs:
  "merge_datas rd family clock datas sm = merge_obs rd family clock (observations datas) sm"
  by (induction datas arbitrary: sm)
     (auto simp: observations_def merge_sensors_obs merge_obs_append split: outcome.split)

lemma window_pairs_snoc:
  "window_pairs (obs @ [Observation c m dev r]) = insert (c, m) (window_pairs obs)"
  by (auto simp: window_pairs_def)

lemma reports_snoc:
  "reports (obs @ [Observation c m dev r]) c' m' =
     reports obs c' m' @ (if c = c' \<and> m = m' then [(dev @ ''-'' @ c', r)] else [])"
  by (simp add: reports_def)

lemma reports_absent: "(c, m) \<notin> window_pairs obs \<Longrightarrow> reports obs c m = []"
  by (auto simp: reports_def window_pairs_def filter_empty_conv)

lemma transposed_Nil: "transposed family [] []"
  by (simp add: transposed_def window_pairs_def)

lemma observe_known:
  assumes "map_of sm (c @ ''-'' @ m) = Some fp" and "Sensors fp = [(c, inner)]"
  shows "observe rd family clock dev c m r sm =
     Return (AList.update (c @ ''-'' @ m)
               (fp\<lparr>Sensors := [(c, AList.update (dev @ ''-'' @ c) r inner)]\<rparr>) sm)"
  using assms by (simp add: observe_def Let_def)

lemma observe_new:
  assumes "map_of sm (c @ ''-'' @ m) = None"
  shows "observe rd family clock dev c m r sm =
     Return (AList.update (c @ ''-'' @ m)
               \<lparr>Timestamp = clock (length sm) sdiv 1000000,
                Family = family,
                Device = c @ ''-'' @ m,
                Location = (case map_of (DeviceLocation rd) (c @ ''-'' @ m) of
                              Some loc \<Rightarrow> loc | None \<Rightarrow> []),
                GPS = (case map_of (DeviceGPS rd) (c @ ''-'' @ m) of
                         Some g \<Rightarrow> g | None \<Rightarrow> zero_GPS),
                Sensors = [(c, [(dev @ ''-'' @ c, r)])]\<rparr> sm)"
  using assms by (simp add: observe_def Let_def update_conv')

lemma map_of_rev_snoc: "map_of (rev (xs @ [(k, v)])) = (map_of (rev xs))(k \<mapsto> v)"
  by (simp add: fun_eq_iff)

lemma transposed_step:
  assumes T: "transposed family obs sm"
    and inj: "inj_on tracked_name (insert (c, m) (window_pairs obs))"
  shows "\<exists>sm'. observe rd family clock dev c m r sm = Return sm' \<and>
               transposed family (obs @ [Observation c m dev r]) sm'"
proof -
  let ?name = "c @ ''-'' @ m"
  let ?obs' = "obs @ [Observation c m dev r]"
  have name: "tracked_name (c, m) = ?name" by (simp add: tracked_name_def)
  from T have dist: "distinct (map fst sm)"
    and keys: "fst ` set sm = tracked_name ` window_pairs obs"
    and ent0: "\<forall>pair \<in> window_pairs obs. \<exists>fp inner.
        map_of sm (tracked_name pair) = Some fp \<and>
        Device fp = tracked_name pair \<and> Family fp = family \<and>
        Sensors fp = [(fst pair, inner)] \<and> distinct (map fst inner) \<and>
        map_of inner = map_of (rev (reports obs (fst pair) (snd pair)))"
    unfolding transposed_def by blast+
  have ent: "\<exists>fp inner.
        map_of sm (tracked_name pair) = Some fp \<and>
        Device fp = tracked_name pair \<and> Family fp = family \<and>
        Sensors fp = [(fst pair, inner)] \<and> distinct (map fst inner) \<and>
        map_of inner = map_of (rev (reports obs (fst pair) (snd pair)))"
    if "pair \<in> window_pairs obs" for pair
    using ent0 that by (rule bspec)
  have other: "tracked_name pair \<noteq> ?name" if "pair \<in> window_pairs obs" "pair \<noteq> (c, m)" for pair
    using inj_onD [OF inj, of pair "(c, m)"] that name by auto
  have old: "\<exists>fp inner.
        map_of (AList.update ?name v sm) (tracked_name pair) = Some fp \<and>
        Device fp = tracked_name pair \<and> Family fp = family \<and>
        Sensors fp = [(fst pair, inner)] \<and> distinct (map fst inner) \<and>
        map_of inner = map_of (rev (reports ?obs' (fst pair) (snd pair)))"
    if "pair \<in> window_pairs obs" "pair \<noteq> (c, m)" for pair v
  proof -
    have "\<not> (c = fst pair \<and> m = snd pair)" using that(2) by (cases pair) auto
    then have "reports ?obs' (fst pair) (snd pair) = reports obs (fst pair) (snd pair)"
      by (simp add: reports_snoc)
    then show ?thesis
      using ent [OF that(1)] other [OF that] by (simp add: update_conv')
  qed
  show ?thesis
  proof (cases "(c, m) \<in> window_pairs obs")
    case True
    from ent [OF True] obtain fp inner where
      fp: "map_of sm ?name = Some fp" "Device fp = ?name" "Family fp = family"
        "Sensors fp = [(c, inner)]" "distinct (map fst inner)"
        "map_of inner = map_of (rev (reports obs c m))"
      by (auto simp: name)
    let ?inner' = "AList.update (dev @ ''-'' @ c) r inner"
    let ?fp' = "fp\<lparr>Sensors := [(c, ?inner')]\<rparr>"
    let ?sm' = "AList.update ?name ?fp' sm"
    have run: "observe rd family clock dev c m r sm = Return ?sm'"
      using observe_known [OF fp(1) fp(4)] .
    have pairs: "window_pairs ?obs' = window_pairs obs"
      using True by (auto simp: window_pairs_snoc)
    have mem: "?name \<in> tracked_name ` window_pairs obs"
      using True name by (metis imageI)
    have k: "fst ` set ?sm' = tracked_name ` window_pairs ?obs'"
      using keys mem by (auto simp: dom_update pairs)
    have new: "\<exists>fp inner.
        map_of ?sm' (tracked_name (c, m)) = Some fp \<and>
        Device fp = tracked_name (c, m) \<and> Family fp = family \<and>
        Sensors fp = [(fst (c, m), inner)] \<and> distinct (map fst inner) \<and>
        map_of inner = map_of (rev (reports ?obs' (fst (c, m)) (snd (c, m))))"
      using fp by (simp add: name update_conv' distinct_update reports_snoc)
    have "transposed family ?obs' ?sm'"
      unfolding transposed_def
    proof (intro conjI ballI)
      show "distinct (map fst ?sm')" using dist by (simp add: distinct_update)
      show "fst ` set ?sm' = tracked_name ` window_pairs ?obs'" by (rule k)
    next
      fix pair assume "pair \<in> window_pairs ?obs'"
      then have p: "pair \<in> window_pairs obs" by (simp add: pairs)
      show "\<exists>fp inner.
        map_of ?sm' (tracked_name pair) = Some fp \<and>
        Device fp = tracked_name pair \<and> Family fp = family \<and>
        Sensors fp = [(fst pair, inner)] \<and> distinct (map fst inner) \<and>
        map_of inner = map_of (rev (reports ?obs' (fst pair) (snd pair)))"
      proof (cases "pair = (c, m)")
        case True
        then show ?thesis using new by simp
      next
        case False
        then show ?thesis using old [OF p] by simp
      qed
    qed
    with run show ?thesis by blast
  next
    case False
    have absent: "map_of sm ?name = None"
    proof (rule ccontr)
      assume "map_of sm ?name \<noteq> None"
      then have "?name \<in> fst ` set sm" by (auto simp: map_of_eq_None_iff)
      then obtain pair where p: "pair \<in> window_pairs obs" "tracked_name pair = ?name"
        using keys by auto
      then have "pair \<noteq> (c, m)" using False by auto
      from other [OF p(1) this] p(2) show False by simp
    qed
    let ?fp' = "\<lparr>Timestamp = clock (length sm) sdiv 1000000,
                Family = family,
                Device = ?name,
                Location = (case map_of (DeviceLocation rd) ?name of
                              Some loc \<Rightarrow> loc | None \<Rightarrow> []),
                GPS = (case map_of (DeviceGPS rd) ?name of
                         Some g \<Rightarrow> g | None \<Rightarrow> zero_GPS),
                Sensors = [(c, [(dev @ ''-'' @ c, r)])]\<rparr>"
    let ?sm' = "AList.update ?name ?fp' sm"
    have run: "observe rd family clock dev c m r sm = Return ?sm'"
      using observe_new [OF absent] .
    have k: "fst ` set ?sm' = tracked_name ` window_pairs ?obs'"
      using keys name by (auto simp: dom_update window_pairs_snoc)
    have new: "\<exists>fp inner.
        map_of ?sm' (tracked_name (c, m)) = Some fp \<and>
        Device fp = tracked_name (c, m) \<and> Family fp = family \<and>
        Sensors fp = [(fst (c, m), inner)] \<and> distinct (map fst inner) \<and>
        map_of inner = map_of (rev (reports ?obs' (fst (c, m)) (snd (c, m))))"
      using reports_absent [OF False] by (simp add: name update_conv' reports_snoc)
    have "transposed family ?obs' ?sm'"
      unfolding transposed_def
    proof (intro conjI ballI)
      show "distinct (map fst ?sm')" using dist by (simp add: distinct_update)
      show "fst ` set ?sm' = tracked_name ` window_pairs ?obs'" by (rule k)
    next
      fix pair assume "pair \<in> window_pairs ?obs'"
      then have p: "pair = (c, m) \<or> pair \<in> window_pairs obs" by (simp add: window_pairs_snoc)
      show "\<exists>fp inner.
        map_of ?sm' (tracked_name pair) = Some fp \<and>
        Device fp = tracked_name pair \<and> Family fp = family \<and>
        Sensors fp = [(fst pair, inner)] \<and> distinct (map fst inner) \<and>
        map_of inner = map_of (rev (reports ?obs' (fst pair) (snd pair)))"
      proof (cases "pair = (c, m)")
        case True
        then show ?thesis using new by simp
      next
        case False
        with p have "pair \<in> window_pairs obs" by simp
        then show ?thesis using old [OF _ False] by simp
      qed
    qed
    with run show ?thesis by blast
  qed
qed

lemma merge_obs_transposed:
  "inj_on tracked_name (window_pairs obs) \<Longrightarrow>
   \<exists>sm. merge_obs rd family clock obs [] = Return sm \<and> transposed family obs sm"
proof (induction obs rule: rev_induct)
  case Nil
  show ?case by (simp add: transposed_Nil)
next
  case (snoc ob obs)
  obtain c m dev r where ob: "ob = Observation c m dev r" by (cases ob)
  from snoc.prems have inj': "inj_on tracked_name (insert (c, m) (window_pairs obs))"
    by (simp add: ob window_pairs_snoc)
  then have "inj_on tracked_name (window_pairs obs)"
    by (rule inj_on_subset) auto
  from snoc.IH [OF this] obtain sm
    where sm: "merge_obs rd family clock obs [] = Return sm" "transposed family obs sm"
    by blast
  from transposed_step [OF sm(2) inj', of rd clock dev r] obtain sm'
    where "observe rd family clock dev c m r sm = Return sm'"
      "transposed family (obs @ [Observation c m dev r]) sm'"
    by blast
  then show ?case by (simp add: ob merge_obs_append sm(1))
qed

text \<open>
  C2 (amended). When \<^verbatim>\<open>parseRollingData\<close> flushes a window in which no two different
  pairs (category, mac) have the same synthetic name, the sensor map it builds has
  exactly one fingerprint per pair, under the name \<^verbatim>\<open>c + "-" + mac\<close>, which is also its
  device; the fingerprint's sensors are one inner map, under \<open>c\<close>, and that map sends
  each scanner key \<^verbatim>\<open>d.device + "-" + c\<close> to the last rssi reported under that key in
  the window.
\<close>

theorem window_transposition:
  assumes "HasData rd" and "TimeBlock rd < now - RTimestamp rd"
    and "inj_on tracked_name (window_pairs (observations (Datas rd)))"
  shows "\<exists>sensorMap.
           transpose_window rd family now clock = Return (sensorMap, rd\<lparr>HasData := False\<rparr>) \<and>
           distinct (map fst sensorMap) \<and>
           fst ` set sensorMap = tracked_name ` window_pairs (observations (Datas rd)) \<and>
           (\<forall>pair \<in> window_pairs (observations (Datas rd)). \<exists>fp inner.
              map_of sensorMap (tracked_name pair) = Some fp \<and>
              Device fp = tracked_name pair \<and> Family fp = family \<and>
              Sensors fp = [(fst pair, inner)] \<and> distinct (map fst inner) \<and>
              map_of inner = map_of (rev (reports (observations (Datas rd)) (fst pair) (snd pair))))"
proof -
  from merge_obs_transposed [OF assms(3), of rd family clock] obtain sm
    where sm: "merge_obs rd family clock (observations (Datas rd)) [] = Return sm"
      "transposed family (observations (Datas rd)) sm"
    by blast
  have "transpose_window rd family now clock = Return (sm, rd\<lparr>HasData := False\<rparr>)"
    using assms(1,2) by (simp add: transpose_window_def merge_datas_obs sm(1))
  with sm(2) show ?thesis unfolding transposed_def by blast
qed

text \<open>
  C2 as stated fails: the pairs (\<open>a\<close>, \<open>b-c\<close>) and (\<open>a-b\<close>, \<open>c\<close>) are different and
  share the name \<open>a-b-c\<close>; the flush does not produce a fingerprint for each, it panics
  on the assignment into the inner map of the second category, which the entry made for
  the first does not have.
\<close>

theorem window_transposition_counterexample:
  "transpose_window rolling_clash ''home'' 91000000000 clock0 = Panic NilMapAssignment \<and>
   window_pairs (observations (Datas rolling_clash)) = {(''a'', ''b-c''), (''a-b'', ''c'')} \<and>
   (''a'', ''b-c'') \<noteq> (''a-b'', ''c'') \<and>
   tracked_name (''a'', ''b-c'') = tracked_name (''a-b'', ''c'')"
  by (simp add: transpose_window_def rolling_clash_def rolling0_def clash_scan_def observe_def
      Let_def window_pairs_def observations_def tracked_name_def)

theorem window_transposition_witness:
  "inj_on tracked_name (window_pairs (observations (Datas rolling0))) \<and>
   (\<exists>sensorMap.
      transpose_window rolling0 ''home'' 91000000000 clock0
        = Return (sensorMap, rolling0\<lparr>HasData := False\<rparr>) \<and>
      fst ` set sensorMap = {''bluetooth-aa:bb'', ''bluetooth-cc:dd''} \<and>
      (\<exists>fp inner. map_of sensorMap ''bluetooth-aa:bb'' = Some fp \<and>
         Device fp = ''bluetooth-aa:bb'' \<and> Sensors fp = [(''bluetooth'', inner)] \<and>
         map_of inner ''s1-bluetooth'' = Some (- 50) \<and>
         map_of inner ''s2-bluetooth'' = Some (- 70)))"
proof -
  have p: "window_pairs (observations (Datas rolling0))
      = {(''bluetooth'', ''aa:bb''), (''bluetooth'', ''cc:dd'')}"
    by (auto simp: window_pairs_def observations_def rolling0_fields scan1_def scan2_def)
  have i: "inj_on tracked_name (window_pairs (observations (Datas rolling0)))"
    by (simp add: p tracked_name_def)
  have e: "TimeBlock rolling0 < 91000000000 - RTimestamp rolling0"
    by (simp add: rolling0_fields)
  have r: "reports (observations (Datas rolling0)) ''bluetooth'' ''aa:bb''
      = [(''s1-bluetooth'', - 50), (''s2-bluetooth'', - 70)]"
    by (simp add: reports_def observations_def rolling0_fields scan1_def scan2_def)
  from window_transposition [OF rolling0_fields(1) e i, of "''home''" clock0] obtain sensorMap
    where s: "transpose_window rolling0 ''home'' 91000000000 clock0
        = Return (sensorMap, rolling0\<lparr>HasData := False\<rparr>)"
      "fst ` set sensorMap = tracked_name ` window_pairs (observations (Datas rolling0))"
      "\<forall>pair \<in> window_pairs (observations (Datas rolling0)). \<exists>fp inner.
              map_of sensorMap (tracked_name pair) = Some fp \<and>
              Device fp = tracked_name pair \<and> Family fp = ''home'' \<and>
              Sensors fp = [(fst pair, inner)] \<and> distinct (map fst inner) \<and>
              map_of inner = map_of (rev (reports (observations (Datas rolling0)) (fst pair) (snd pair)))"
    by blast
  have k: "fst ` set sensorMap = {''bluetooth-aa:bb'', ''bluetooth-cc:dd''}"
    by (simp add: s(2) p tracked_name_def)
  from s(3) have "\<exists>fp inner.
      map_of sensorMap (tracked_name (''bluetooth'', ''aa:bb'')) = Some fp \<and>
      Device fp = tracked_name (''bluetooth'', ''aa:bb'') \<and> Family fp = ''home'' \<and>
      Sensors fp = [(fst (''bluetooth'', ''aa:bb''), inner)] \<and> distinct (map fst inner) \<and>
      map_of inner = map_of (rev (reports (observations (Datas rolling0))
                                  (fst (''bluetooth'', ''aa:bb'')) (snd (''bluetooth'', ''aa:bb''))))"
    by (rule bspec) (simp add: p)
  then have f: "\<exists>fp inner. map_of sensorMap ''bluetooth-aa:bb'' = Some fp \<and>
         Device fp = ''bluetooth-aa:bb'' \<and> Sensors fp = [(''bluetooth'', inner)] \<and>
         map_of inner ''s1-bluetooth'' = Some (- 50) \<and>
         map_of inner ''s2-bluetooth'' = Some (- 70)"
    by (auto simp: tracked_name_def r)
  from i s(1) k f show ?thesis by blast
qed

text \<open>
  Last occurrence wins: scanner \<open>s1\<close> reports \<open>aa:bb\<close> twice in a window, first at
  \<open>-50\<close> and then at \<open>-52\<close>; the fingerprint keeps \<open>-52\<close>.
\<close>

lemma merge_datas_last_wins:
  "merge_datas rolling0 ''home'' clock0 [scan1, scan3] [] =
   Return [(''bluetooth-aa:bb'',
            tracked_aabb\<lparr>Sensors := [(''bluetooth'', [(''s1-bluetooth'', - 52)])]\<rparr>)]"
  by (simp add: rolling0_fields scan1_def scan3_def observe_def Let_def clock0_def
      signed_divide_int_def tracked_aabb_def)

end
